theory Spec2Isabelle
  imports Complex_Main "HOL-Library.Char_ord" "HOL-Library.List_Lexorder"
begin

section \<open>Exceptions\<close>

text \<open>
  Every \<^verbatim>\<open>raise\<close> of the two service modules is a value of \<open>exn\<close>; the string is
  the exception's message (what \<^verbatim>\<open>str(e)\<close> gives). A function that may raise returns
  \<open>exn + 'a\<close>, with \<open>Inl\<close> for the exception.
\<close>

datatype exn =
    ValueError string
  | TypeError string
  | FileNotFoundError string
  | FrozenInstanceError string
  | KeyError string
  | OtherError string

fun exn_text :: "exn \<Rightarrow> string" where
  "exn_text (ValueError s) = s"
| "exn_text (TypeError s) = s"
| "exn_text (FileNotFoundError s) = s"
| "exn_text (FrozenInstanceError s) = s"
| "exn_text (KeyError s) = s"
| "exn_text (OtherError s) = s"

section \<open>Efficiency calculator: metrics\<close>

text \<open>
  \<^verbatim>\<open>efficiency_calculator.py\<close>. Python floats are modelled as reals: rounding, overflow
  and the special values are outside the model. An optional float is a \<open>real option\<close>.
\<close>

record EfficiencyMetric =
  kwh_per_dollar :: real
  cost_per_kwh :: real
  charging_speed_kw :: "real option"
  efficiency_rating :: string

text \<open>
  \<^verbatim>\<open>EFFICIENCY_THRESHOLDS\<close>: a dict, iterated in insertion order, so an association
  list. The bound \<^verbatim>\<open>float("inf")\<close> of the last entry is \<open>None\<close>.
\<close>

definition EFFICIENCY_THRESHOLDS :: "(string \<times> real option) list" where
  "EFFICIENCY_THRESHOLDS =
     [(''excellent'', Some 0.12), (''good'', Some 0.20), (''fair'', Some 0.35), (''poor'', None)]"

fun within_threshold :: "real \<Rightarrow> real option \<Rightarrow> bool" where
  "within_threshold c None = True"
| "within_threshold c (Some b) = (c \<le> b)"

text \<open>The \<^verbatim>\<open>for label, threshold in ...items()\<close> loop of \<^verbatim>\<open>_rate_efficiency\<close>.\<close>

fun rate_loop :: "(string \<times> real option) list \<Rightarrow> real \<Rightarrow> string" where
  "rate_loop [] c = ''poor''"
| "rate_loop ((label, threshold) # rest) c =
     (if within_threshold c threshold then label else rate_loop rest c)"

definition rate_efficiency :: "real \<Rightarrow> string" where
  "rate_efficiency c = rate_loop EFFICIENCY_THRESHOLDS c"

text \<open>
  \<^verbatim>\<open>calculate_efficiency_metrics\<close>. After the guard \<^verbatim>\<open>energy_kwh > 0\<close> holds, so the
  \<^verbatim>\<open>math.inf\<close> alternative of \<^verbatim>\<open>cost_per_kwh\<close> is never taken; the model keeps the
  conditional and writes 0 in the dead branch. \<^verbatim>\<open>if duration_minutes and ...\<close> is false
  for \<^verbatim>\<open>None\<close> and for 0.
\<close>

definition calculate_efficiency_metrics ::
  "real \<Rightarrow> real \<Rightarrow> real option \<Rightarrow> exn + EfficiencyMetric" where
  "calculate_efficiency_metrics energy_kwh cost duration_minutes =
     (if energy_kwh \<le> 0 \<or> cost < 0
      then Inl (ValueError ''energy_kwh must be > 0 and cost must be >= 0'')
      else
        let cpk = (if energy_kwh > 0 then cost / energy_kwh else 0);
            kpd = (if cost > 0 then energy_kwh / cost else 0);
            speed_kw = (case duration_minutes of
                          None \<Rightarrow> None
                        | Some d \<Rightarrow> if d \<noteq> 0 \<and> d > 0 then Some ((energy_kwh * 60) / d) else None)
        in Inr \<lparr> kwh_per_dollar = kpd, cost_per_kwh = cpk,
                 charging_speed_kw = speed_kw, efficiency_rating = rate_efficiency cpk \<rparr>)"

text \<open>
  Where a float is the result of a division by zero it is infinite or NaN, and the
  infinity is carried on by sums, means and differences. Such a float is an \<open>xreal\<close>.
\<close>

datatype xreal = Fin real | PInf | MInf | NaN

section \<open>Efficiency calculator: analysis result and recommendations\<close>

record ChargingPattern =
  avg_session_energy :: real
  preferred_charger_types :: "string list"
  peak_usage_hours :: "int list"
  weekend_vs_weekday_ratio :: real
  avg_soc_start :: "real option"
  avg_soc_end :: "real option"

text \<open>
  A recommendation is an f-string built from a fixed sentence and the numbers and labels
  put into it. The model keeps which sentence it is and the values formatted into it;
  the rendering (\<^verbatim>\<open>:.3f\<close> and so on) is not modelled.
\<close>

datatype recommendation =
    HighCostPerKwh real
  | PriceGap string real string real
  | BestLocations "(string \<times> real) list"
  | LowStartSoc real
  | HighEndSoc real
  | PeakHours
  | SmallSessions real

text \<open>
  \<^verbatim>\<open>EfficiencyAnalysis\<close>. The three dicts are association lists in insertion order
  (their keys are distinct): \<^verbatim>\<open>min\<close>, \<^verbatim>\<open>max\<close>, \<^verbatim>\<open>next\<close> and \<^verbatim>\<open>sorted\<close> depend on
  that order.
\<close>

record EfficiencyAnalysis =
  overall_efficiency :: EfficiencyMetric
  by_charger_type :: "(string \<times> EfficiencyMetric) list"
  by_location :: "(string \<times> EfficiencyMetric) list"
  temporal_trends :: "(string \<times> xreal) list"
  charging_patterns :: ChargingPattern
  recommendations :: "recommendation list"
  cost_savings_potential :: real

text \<open>
  Python's \<^verbatim>\<open>min(xs, key=f)\<close> and \<^verbatim>\<open>max(xs, key=f)\<close> on a non-empty sequence: the
  first element whose key is smallest (largest). The first argument is the best so far.
\<close>

fun py_min_by :: "('a \<Rightarrow> real) \<Rightarrow> 'a \<Rightarrow> 'a list \<Rightarrow> 'a" where
  "py_min_by f best [] = best"
| "py_min_by f best (x # xs) = py_min_by f (if f x < f best then x else best) xs"

fun py_max_by :: "('a \<Rightarrow> real) \<Rightarrow> 'a \<Rightarrow> 'a list \<Rightarrow> 'a" where
  "py_max_by f best [] = best"
| "py_max_by f best (x # xs) = py_max_by f (if f x > f best then x else best) xs"

text \<open>\<^verbatim>\<open>next(k for k, v in d.items() if v == m)\<close>; an exhausted generator raises.\<close>

definition first_label :: "(string \<times> EfficiencyMetric) list \<Rightarrow> EfficiencyMetric \<Rightarrow> exn + string" where
  "first_label items m =
     (case find (\<lambda>kv. snd kv = m) items of
        None \<Rightarrow> Inl (OtherError ''StopIteration'')
      | Some kv \<Rightarrow> Inr (fst kv))"

text \<open>The charger-type block of \<^verbatim>\<open>_recommendations\<close>: the notes it appends.\<close>

definition charger_mix_notes :: "(string \<times> EfficiencyMetric) list \<Rightarrow> exn + recommendation list" where
  "charger_mix_notes by_type =
     (case map snd by_type of
        [] \<Rightarrow> Inr []
      | v # vs \<Rightarrow>
          let best = py_min_by cost_per_kwh v vs;
              worst = py_max_by cost_per_kwh v vs;
              delta = cost_per_kwh worst - cost_per_kwh best
          in if delta > 0.10
             then (case first_label by_type best of
                     Inl e \<Rightarrow> Inl e
                   | Inr best_label \<Rightarrow>
                       (case first_label by_type worst of
                          Inl e \<Rightarrow> Inl e
                        | Inr worst_label \<Rightarrow>
                            Inr [PriceGap best_label (cost_per_kwh best)
                                          worst_label (cost_per_kwh worst)]))
             else Inr [])"

text \<open>
  \<^verbatim>\<open>_recommendations(analysis, df)\<close>; \<^verbatim>\<open>df\<close> is not used by the source. The blocks run
  in the source's order and each appends at most one note. \<^verbatim>\<open>sorted\<close> is stable, as
  \<open>sort_key\<close> is.
\<close>

definition compute_recommendations :: "EfficiencyAnalysis \<Rightarrow> exn + recommendation list" where
  "compute_recommendations analysis =
     (let cpk = cost_per_kwh (overall_efficiency analysis);
          cost_recs = (if cpk > 0.25 then [HighCostPerKwh cpk] else []);
          cp = charging_patterns analysis;
          loc_recs =
            (if by_location analysis \<noteq> [] \<and> length (by_location analysis) > 2
             then (let best_locations =
                         take 2 (sort_key (\<lambda>kv. cost_per_kwh (snd kv)) (by_location analysis))
                   in if best_locations \<noteq> []
                      then [BestLocations (map (\<lambda>kv. (fst kv, cost_per_kwh (snd kv))) best_locations)]
                      else [])
             else []);
          soc_start_recs =
            (case avg_soc_start cp of
               Some s \<Rightarrow> if s < 20 then [LowStartSoc s] else []
             | None \<Rightarrow> []);
          soc_end_recs =
            (case avg_soc_end cp of
               Some s \<Rightarrow> if s > 90 then [HighEndSoc s] else []
             | None \<Rightarrow> []);
          peak_recs =
            (if peak_usage_hours cp \<noteq> []
                \<and> list_ex (\<lambda>h. h \<in> set [17, 18, 19, 20]) (peak_usage_hours cp)
             then [PeakHours] else []);
          size_recs =
            (if avg_session_energy cp \<noteq> 0 \<and> avg_session_energy cp < 10
             then [SmallSessions (avg_session_energy cp)] else [])
      in case charger_mix_notes (by_charger_type analysis) of
           Inl e \<Rightarrow> Inl e
         | Inr mix_recs \<Rightarrow>
             Inr (cost_recs @ mix_recs @ loc_recs @ soc_start_recs @ soc_end_recs
                  @ peak_recs @ size_recs))"

text \<open>
  \<^verbatim>\<open>_annual_savings_potential\<close>; \<^verbatim>\<open>min\<close> over a generator of the rates themselves.
\<close>

definition annual_savings_potential :: "EfficiencyAnalysis \<Rightarrow> real \<Rightarrow> real" where
  "annual_savings_potential analysis total_energy_kwh =
     (case map (\<lambda>kv. cost_per_kwh (snd kv)) (by_charger_type analysis) of
        [] \<Rightarrow> 0
      | r # rs \<Rightarrow>
          if total_energy_kwh \<le> 0 then 0
          else
            let current = cost_per_kwh (overall_efficiency analysis);
                best = py_min_by id r rs;
                savings_per_kwh = max 0 (current - best);
                estimated_annual_kwh = total_energy_kwh * (365 / 90)
            in savings_per_kwh * estimated_annual_kwh * 0.6)"

section \<open>CSV processor: numbers and their text\<close>

text \<open>
  \<^verbatim>\<open>csv_processor.py\<close>. Every number the cleaner handles is read from decimal text, so
  a float is modelled by the decimal it was read from: a sign, the significant digits
  \<open>d1 ... dn\<close> (no leading and no trailing zero; none at all for zero) and the position
  \<open>point\<close> of the decimal point, for the value \<open>0.d1...dn * 10 ^ point\<close>. Binary
  rounding, infinities and the negative zero are outside the model; strings are ASCII, so
  \<^verbatim>\<open>\d\<close> is one of the ten ASCII digits.
\<close>

datatype dec = Dec (neg: bool) (digits: "nat list") (point: int)

definition digits_value :: "nat list \<Rightarrow> nat" where
  "digits_value ds = foldl (\<lambda>acc d. 10 * acc + d) 0 ds"

definition dec_val :: "dec \<Rightarrow> real" where
  "dec_val d =
     (let m = real (digits_value (digits d));
          e = point d - int (length (digits d));
          v = (if e \<ge> 0 then m * 10 ^ nat e else m / 10 ^ nat (- e))
      in if neg d then - v else v)"

definition strip_trailing_zeros :: "nat list \<Rightarrow> nat list" where
  "strip_trailing_zeros ds = rev (dropWhile (\<lambda>d. d = 0) (rev ds))"

definition mk_dec :: "bool \<Rightarrow> nat list \<Rightarrow> int \<Rightarrow> dec" where
  "mk_dec sign ds p =
     (let lead = length (takeWhile (\<lambda>d. d = 0) ds);
          sig = strip_trailing_zeros (dropWhile (\<lambda>d. d = 0) ds)
      in if sig = [] then Dec False [] 0 else Dec sign sig (p - int lead))"

definition is_digit :: "char \<Rightarrow> bool" where
  "is_digit c = (c \<in> set ''0123456789'')"

definition digit_of :: "char \<Rightarrow> nat" where
  "digit_of c = of_char c - 48"

text \<open>
  The exponent part of a float literal, after the mantissa: nothing, or \<^verbatim>\<open>e\<close>/\<^verbatim>\<open>E\<close>, an
  optional sign and at least one digit, up to the end of the text.
\<close>

definition parse_exponent :: "string \<Rightarrow> int option" where
  "parse_exponent s =
     (case s of
        [] \<Rightarrow> Some 0
      | c # r \<Rightarrow>
          if c = CHR ''e'' \<or> c = CHR ''E''
          then (let minus = (r \<noteq> [] \<and> hd r = CHR ''-'');
                    plus = (r \<noteq> [] \<and> hd r = CHR ''+'');
                    ds = (if minus \<or> plus then tl r else r)
                in if ds \<noteq> [] \<and> list_all is_digit ds
                   then Some ((if minus then - 1 else 1) * int (digits_value (map digit_of ds)))
                   else None)
          else None)"

text \<open>
  \<^verbatim>\<open>pd.to_numeric(s, errors="coerce")\<close> on one text: an optional sign, digits with at
  most one dot and at least one digit, an optional exponent; anything else is NaN
  (\<open>None\<close>). The words pandas also reads (\<^verbatim>\<open>inf\<close>, \<^verbatim>\<open>nan\<close>) and surrounding blanks are
  outside the model; \<^verbatim>\<open>_to_number\<close> and \<^verbatim>\<open>_to_currency\<close> strip both before parsing.
\<close>

definition parse_float :: "string \<Rightarrow> dec option" where
  "parse_float s =
     (let sign = (s \<noteq> [] \<and> hd s = CHR ''-'');
          plus = (s \<noteq> [] \<and> hd s = CHR ''+'');
          r = (if sign \<or> plus then tl s else s);
          ip = takeWhile is_digit r;
          r1 = dropWhile is_digit r;
          dot = (r1 \<noteq> [] \<and> hd r1 = CHR ''.'');
          fp = (if dot then takeWhile is_digit (tl r1) else []);
          r2 = (if dot then dropWhile is_digit (tl r1) else r1)
      in if ip = [] \<and> fp = [] then None
         else (case parse_exponent r2 of
                 None \<Rightarrow> None
               | Some e \<Rightarrow> Some (mk_dec sign (map digit_of (ip @ fp)) (int (length ip) + e))))"

text \<open>
  \<^verbatim>\<open>_to_number\<close> on one value that is already text. The first \<^verbatim>\<open>str.replace\<close> keeps
  the characters of \<^verbatim>\<open>[\d.\-eE,]\<close>. \<^verbatim>\<open>has_both\<close> is computed once, on the stripped text;
  \<^verbatim>\<open>s.where(~has_both, ...)\<close> removes the commas where \<^verbatim>\<open>has_both\<close> holds and
  \<^verbatim>\<open>s.where(has_both, ...)\<close> turns the commas into dots where it does not.
\<close>

definition number_chars :: "char set" where
  "number_chars = set ''0123456789.-eE,''"

definition to_number_text :: "string \<Rightarrow> dec option" where
  "to_number_text raw =
     (let s = filter (\<lambda>c. c \<in> number_chars) raw;
          has_both = (CHR '','' \<in> set s \<and> CHR ''.'' \<in> set s);
          s1 = (if \<not> has_both then s else filter (\<lambda>c. c \<noteq> CHR '','') s);
          s2 = (if has_both then s1 else map (\<lambda>c. if c = CHR '','' then CHR ''.'' else c) s1)
      in parse_float s2)"

text \<open>
  \<^verbatim>\<open>_to_currency\<close> on one text value: keep the characters of \<^verbatim>\<open>[\d,.\-]\<close> (so the
  letters \<^verbatim>\<open>e\<close> and \<^verbatim>\<open>E\<close> go too), then \<^verbatim>\<open>_to_number\<close>.
\<close>

definition currency_chars :: "char set" where
  "currency_chars = set ''0123456789,.-''"

definition to_currency_text :: "string \<Rightarrow> dec option" where
  "to_currency_text raw = to_number_text (filter (\<lambda>c. c \<in> currency_chars) raw)"

section \<open>Text helpers and regular expressions\<close>

text \<open>\<^verbatim>\<open>str.lower\<close> on ASCII text and Python's \<^verbatim>\<open>k in s\<close> on strings.\<close>

definition lower_char :: "char \<Rightarrow> char" where
  "lower_char c =
     (let n = (of_char c :: nat) in if 65 \<le> n \<and> n \<le> 90 then char_of (n + 32) else c)"

definition lower :: "string \<Rightarrow> string" where
  "lower s = map lower_char s"

fun starts_with :: "string \<Rightarrow> string \<Rightarrow> bool" where
  "starts_with [] s = True"
| "starts_with (k # ks) [] = False"
| "starts_with (k # ks) (c # cs) = (k = c \<and> starts_with ks cs)"

fun contains :: "string \<Rightarrow> string \<Rightarrow> bool" where
  "contains k [] = (k = [])"
| "contains k (c # cs) = (starts_with k (c # cs) \<or> contains k cs)"

text \<open>
  The regular expressions of the two modules use literals, \<^verbatim>\<open>\b\<close>, \<^verbatim>\<open>\s*\<close>, \<^verbatim>\<open>\d\<close>,
  concatenation and alternation only. \<open>rx_from\<close> gives every way a pattern matches a
  prefix of the text: the character before the position reached and the text left.
  Matching ignores case where the source passes \<^verbatim>\<open>re.IGNORECASE\<close> or lowers the text
  first, so literals are written in lower case and compared with the lowered text.
\<close>

datatype rx = Lit string | Bnd | Ws | Dgt | Cat rx rx | Alt rx rx

definition is_word_char :: "char option \<Rightarrow> bool" where
  "is_word_char c =
     (case c of None \<Rightarrow> False
      | Some x \<Rightarrow> x \<in> set ''abcdefghijklmnopqrstuvwxyzABCDEFGHIJKLMNOPQRSTUVWXYZ0123456789_'')"

definition is_space :: "char \<Rightarrow> bool" where
  "is_space c = ((of_char c :: nat) \<in> {32, 9, 10, 11, 12, 13})"

fun ws_splits :: "char option \<Rightarrow> string \<Rightarrow> (char option \<times> string) list" where
  "ws_splits prev [] = [(prev, [])]"
| "ws_splits prev (c # cs) =
     (prev, c # cs) # (if is_space c then ws_splits (Some c) cs else [])"

fun rx_from :: "rx \<Rightarrow> char option \<Rightarrow> string \<Rightarrow> (char option \<times> string) list" where
  "rx_from (Lit l) prev s =
     (if starts_with l (lower (take (length l) s))
      then [(if l = [] then prev else Some (last (take (length l) s)), drop (length l) s)]
      else [])"
| "rx_from Bnd prev s =
     (if is_word_char prev \<noteq> is_word_char (case s of [] \<Rightarrow> None | c # cs \<Rightarrow> Some c)
      then [(prev, s)] else [])"
| "rx_from Ws prev s = ws_splits prev s"
| "rx_from Dgt prev s =
     (case s of [] \<Rightarrow> [] | c # cs \<Rightarrow> if c \<in> set ''0123456789'' then [(Some c, cs)] else [])"
| "rx_from (Cat a b) prev s = concat (map (\<lambda>(p, r). rx_from b p r) (rx_from a prev s))"
| "rx_from (Alt a b) prev s = rx_from a prev s @ rx_from b prev s"

text \<open>\<^verbatim>\<open>re.search\<close>: a match starting at some position of the text.\<close>

fun rx_search_from :: "rx \<Rightarrow> char option \<Rightarrow> string \<Rightarrow> bool" where
  "rx_search_from r prev [] = (rx_from r prev [] \<noteq> [])"
| "rx_search_from r prev (c # cs) = (rx_from r prev (c # cs) \<noteq> [] \<or> rx_search_from r (Some c) cs)"

definition re_search :: "rx \<Rightarrow> string \<Rightarrow> bool" where
  "re_search r s = rx_search_from r None s"

section \<open>Tables\<close>

text \<open>
  A timestamp is the wall-clock reading in seconds since 1970-01-01 00:00:00 and, when
  it is timezone-aware, its offset from UTC in seconds (\<open>None\<close> for a naive one).
\<close>

datatype timestamp = Timestamp (wall: int) (tz: "int option")

text \<open>
  One value of a pandas column: text, a number, a timestamp, or a missing value
  (\<^verbatim>\<open>NaN\<close>, \<^verbatim>\<open>NaT\<close>, \<^verbatim>\<open>None\<close>, \<^verbatim>\<open>pd.NA\<close>). Reading a timestamp from text is the work
  of pandas' date parser, which is not modelled: a cell of a date column is given as the
  timestamp that parser reads from it (\<open>Ts\<close>), and as text or \<open>NA\<close> where it reads none.
\<close>

datatype cell = Str string | Num dec | Ts timestamp | NA

text \<open>
  A DataFrame: its column labels in order and its rows, each row giving the cell under a
  label (\<open>NA\<close> under a label that is not a column). Labels are taken to be distinct.
\<close>

type_synonym row = "string \<Rightarrow> cell"

record table =
  columns :: "string list"
  rows :: "row list"

definition has_col :: "table \<Rightarrow> string \<Rightarrow> bool" where
  "has_col d c = (c \<in> set (columns d))"

text \<open>\<^verbatim>\<open>df.empty\<close>: an axis of length 0.\<close>

definition is_empty :: "table \<Rightarrow> bool" where
  "is_empty d = (columns d = [] \<or> rows d = [])"

text \<open>\<^verbatim>\<open>d[c] = f(d[c])\<close> for a cell-wise \<open>f\<close>, and \<^verbatim>\<open>d[dst] = f(d[src])\<close>.\<close>

definition map_col :: "string \<Rightarrow> (cell \<Rightarrow> cell) \<Rightarrow> table \<Rightarrow> table" where
  "map_col c f d = d\<lparr> rows := map (\<lambda>r. r(c := f (r c))) (rows d) \<rparr>"

definition assign_col :: "string \<Rightarrow> string \<Rightarrow> (cell \<Rightarrow> cell) \<Rightarrow> table \<Rightarrow> table" where
  "assign_col dst src f d =
     d\<lparr> columns := (if dst \<in> set (columns d) then columns d else columns d @ [dst]),
        rows := map (\<lambda>r. r(dst := f (r src))) (rows d) \<rparr>"

text \<open>\<^verbatim>\<open>d = d[mask]\<close>.\<close>

definition filter_rows :: "(row \<Rightarrow> bool) \<Rightarrow> table \<Rightarrow> table" where
  "filter_rows P d = d\<lparr> rows := filter P (rows d) \<rparr>"

text \<open>\<^verbatim>\<open>df.rename(columns=mapping)\<close>, the mapping an association list.\<close>

definition new_label :: "(string \<times> string) list \<Rightarrow> string \<Rightarrow> string" where
  "new_label mapping c = (case map_of mapping c of None \<Rightarrow> c | Some n \<Rightarrow> n)"

definition rename :: "(string \<times> string) list \<Rightarrow> table \<Rightarrow> table" where
  "rename mapping d =
     \<lparr> columns = map (new_label mapping) (columns d),
       rows = map (\<lambda>r c'. case find (\<lambda>c. new_label mapping c = c') (columns d) of
                              None \<Rightarrow> NA | Some c \<Rightarrow> r c) (rows d) \<rparr>"

section \<open>CSV processor: format detection and column normalisation\<close>

definition COLUMN_MAPPINGS :: "(string \<times> (string \<times> string) list) list" where
  "COLUMN_MAPPINGS =
     [(''tesla_mobile'',
         [(''Date'', ''session_date''), (''Location'', ''location_name''),
          (''Charger Type'', ''charger_type''), (''Energy Added (kWh)'', ''energy_added_kwh''),
          (''Charging Time'', ''charging_duration''), (''Cost'', ''total_cost''),
          (''Starting SOC'', ''start_soc_percent''), (''Ending SOC'', ''end_soc_percent'')]),
      (''tesla_web'',
         [(''Date'', ''session_date''), (''Time'', ''session_time''),
          (''Location Name'', ''location_name''), (''Address'', ''location_address''),
          (''Charger Type'', ''charger_type''), (''Connector Type'', ''connector_type''),
          (''Energy Delivered (kWh)'', ''energy_added_kwh''),
          (''Charging Time (HH:MM)'', ''charging_duration''), (''Charge Cost'', ''total_cost''),
          (''Vehicle'', ''vehicle_name'')]),
      (''teslafi'',
         [(''Date'', ''session_date''), (''Start Time'', ''start_time''),
          (''End Time'', ''end_time''), (''Location'', ''location_name''),
          (''Charger'', ''charger_type''), (''kWh'', ''energy_added_kwh''),
          (''Cost'', ''total_cost''), (''Start %'', ''start_soc_percent''),
          (''End %'', ''end_soc_percent''), (''Max Power'', ''max_power_kw''),
          (''Avg Power'', ''avg_power_kw'')])]"

definition REQUIRED_COLUMNS :: "string list" where
  "REQUIRED_COLUMNS = [''session_date'', ''energy_added_kwh'', ''total_cost'']"

definition OPTIONAL_COLUMNS :: "string list" where
  "OPTIONAL_COLUMNS =
     [''start_soc_percent'', ''end_soc_percent'', ''charging_duration'', ''location_name'',
      ''charger_type'', ''max_power_kw'', ''avg_power_kw'', ''session_time'', ''start_time'',
      ''end_time'', ''location_address'', ''connector_type'', ''vehicle_name'',
      ''charging_duration_minutes'']"

text \<open>
  \<^verbatim>\<open>_detect_format\<close>, on the column labels of the raw table. \<^verbatim>\<open>{...} <= cols\<close> is set
  inclusion; the two \<^verbatim>\<open>any(any(k in c.lower() ...) ...)\<close> are the generic sniff.
\<close>

definition energy_like :: "string \<Rightarrow> bool" where
  "energy_like c = list_ex (\<lambda>k. contains k (lower c)) [''kwh'', ''energy'', ''delivered'', ''added'']"

definition cost_like :: "string \<Rightarrow> bool" where
  "cost_like c = list_ex (\<lambda>k. contains k (lower c)) [''cost'', ''price'', ''fee'', ''charge'']"

definition detect_format :: "string list \<Rightarrow> exn + string" where
  "detect_format cols =
     (if set [''Energy Added (kWh)'', ''Starting SOC''] \<subseteq> set cols then Inr ''tesla_mobile''
      else if set [''Energy Delivered (kWh)'', ''Charge Cost''] \<subseteq> set cols then Inr ''tesla_web''
      else if set [''kWh'', ''Start %'', ''End %''] \<subseteq> set cols then Inr ''teslafi''
      else if list_ex energy_like cols \<and> list_ex cost_like cols then Inr ''generic''
      else Inl (ValueError ''Unrecognized CSV format; headers do not match expected patterns''))"

text \<open>
  \<^verbatim>\<open>_fuzzy_map\<close>. \<^verbatim>\<open>first_match\<close> tries the patterns in order and, for each, the columns
  in order, skipping a column that is already a key of the mapping. \<^verbatim>\<open>if c:\<close> also
  rejects a column whose label is the empty string.
\<close>

fun first_match :: "string list \<Rightarrow> (string \<times> string) list \<Rightarrow> rx list \<Rightarrow> string option" where
  "first_match cols mapping [] = None"
| "first_match cols mapping (pat # pats) =
     (case find (\<lambda>c. re_search pat c \<and> c \<notin> fst ` set mapping) cols of
        Some c \<Rightarrow> Some c
      | None \<Rightarrow> first_match cols mapping pats)"

definition claim_column :: "string list \<Rightarrow> rx list \<Rightarrow> string \<Rightarrow> (string \<times> string) list
    \<Rightarrow> (string \<times> string) list" where
  "claim_column cols pats target mapping =
     (case first_match cols mapping pats of
        None \<Rightarrow> mapping
      | Some c \<Rightarrow> if c \<noteq> [] then mapping @ [(c, target)] else mapping)"

definition fuzzy_mapping :: "string list \<Rightarrow> (string \<times> string) list" where
  "fuzzy_mapping cols =
     (claim_column cols [Alt (Cat (Lit ''location'') (Cat Ws (Lit ''name''))) (Lit ''location'')]
        ''location_name''
     (claim_column cols [Alt (Lit ''duration'') (Cat (Lit ''charging'') (Cat Ws (Lit ''time'')))]
        ''charging_duration''
     (claim_column cols [Alt (Cat (Lit ''end'') (Cat Ws (Lit ''%'')))
                            (Cat (Lit ''ending'') (Cat Ws (Lit ''soc'')))]
        ''end_soc_percent''
     (claim_column cols [Alt (Cat (Lit ''start'') (Cat Ws (Lit ''%'')))
                            (Cat (Lit ''starting'') (Cat Ws (Lit ''soc'')))]
        ''start_soc_percent''
     (claim_column cols [Cat Bnd (Cat (Lit ''date'') Bnd),
                         Cat (Lit ''session'') (Cat Ws (Lit ''date'')),
                         Cat Bnd (Cat (Lit ''time'') Bnd)]
        ''session_date''
     (claim_column cols [Lit ''cost'', Lit ''price'', Lit ''fee'',
                         Cat (Lit ''charge'') (Cat Ws (Lit ''cost''))]
        ''total_cost''
     (claim_column cols [Lit ''kwh'', Lit ''energy'', Lit ''delivered'', Lit ''added'']
        ''energy_added_kwh'' [])))))))"

definition fuzzy_map :: "table \<Rightarrow> table" where
  "fuzzy_map d = rename (fuzzy_mapping (columns d)) d"

definition normalize_columns :: "table \<Rightarrow> string \<Rightarrow> table" where
  "normalize_columns d fmt =
     (case map_of COLUMN_MAPPINGS fmt of
        Some mapping \<Rightarrow> rename mapping d
      | None \<Rightarrow> fuzzy_map d)"

text \<open>
  \<^verbatim>\<open>_validate_structure\<close>. The text of the issue is the f-string with the \<^verbatim>\<open>repr\<close> of
  the list of missing labels.
\<close>

fun join_repr :: "string list \<Rightarrow> string" where
  "join_repr [] = []"
| "join_repr [x] = [CHR 0x27] @ x @ [CHR 0x27]"
| "join_repr (x # y # ys) = [CHR 0x27] @ x @ [CHR 0x27] @ '', '' @ join_repr (y # ys)"

definition list_repr :: "string list \<Rightarrow> string" where
  "list_repr xs = ''['' @ join_repr xs @ '']''"

definition validate_structure :: "table \<Rightarrow> bool \<times> string list" where
  "validate_structure d =
     (let missing = filter (\<lambda>c. c \<notin> set (columns d)) REQUIRED_COLUMNS
      in if missing \<noteq> [] then (False, [''Missing required columns: '' @ list_repr missing])
         else if length (rows d) = 0 then (False, [''No data rows found''])
         else (True, []))"

section \<open>CSV processor: cell parsers\<close>

text \<open>
  \<^verbatim>\<open>str(x)\<close> of a float, which \<^verbatim>\<open>series.astype(str)\<close> applies to a numeric column:
  Python's shortest \<^verbatim>\<open>repr\<close>. With the decimal point at position \<open>point\<close> it prints
  positional notation for \<open>-4 < point \<le> 16\<close> and exponent notation otherwise
  (\<^verbatim>\<open>0.0001\<close> but \<^verbatim>\<open>1e-05\<close>; \<^verbatim>\<open>1000000000000000.0\<close> but \<^verbatim>\<open>1e+16\<close>), the exponent
  with at least two digits.
\<close>

fun digits_of :: "nat \<Rightarrow> nat list" where
  "digits_of n = (if n < 10 then [n] else digits_of (n div 10) @ [n mod 10])"

definition digit_char :: "nat \<Rightarrow> char" where
  "digit_char d = char_of (48 + d)"

definition exponent_text :: "int \<Rightarrow> string" where
  "exponent_text e =
     (let ds = digits_of (nat \<bar>e\<bar>);
          padded = (if length ds < 2 then 0 # ds else ds)
      in (if e < 0 then ''-'' else ''+'') @ map digit_char padded)"

definition float_str :: "dec \<Rightarrow> string" where
  "float_str d =
     (let ds = map digit_char (digits d);
          n = int (length ds);
          p = point d;
          body =
            (if ds = [] then ''0.0''
             else if - 4 < p \<and> p \<le> 16 then
               (if p \<le> 0 then ''0.'' @ replicate (nat (- p)) (CHR ''0'') @ ds
                else if n \<le> p then ds @ replicate (nat (p - n)) (CHR ''0'') @ ''.0''
                else take (nat p) ds @ ''.'' @ drop (nat p) ds)
             else
               [hd ds] @ (if tl ds = [] then [] else ''.'' @ tl ds)
               @ ''e'' @ exponent_text (p - 1))
      in (if neg d then ''-'' else []) @ body)"

definition number_cell :: "dec option \<Rightarrow> cell" where
  "number_cell v = (case v of None \<Rightarrow> NA | Some d \<Rightarrow> Num d)"

text \<open>
  \<^verbatim>\<open>_to_number\<close>, \<^verbatim>\<open>_to_currency\<close> and \<^verbatim>\<open>_to_percent\<close> on one value of the series. All
  three start with \<^verbatim>\<open>astype(str)\<close>: a number becomes its \<^verbatim>\<open>str\<close>; a missing value
  becomes \<^verbatim>\<open>nan\<close>, \<^verbatim>\<open>None\<close>, \<^verbatim>\<open>NaT\<close> or \<^verbatim>\<open><NA>\<close>, and a timestamp its date and time
  with \<^verbatim>\<open>-\<close> between year, month and day, none of which is read as a number.
\<close>

fun to_number :: "cell \<Rightarrow> cell" where
  "to_number (Str s) = number_cell (to_number_text s)"
| "to_number (Num d) = number_cell (to_number_text (float_str d))"
| "to_number (Ts t) = NA"
| "to_number NA = NA"

fun to_currency :: "cell \<Rightarrow> cell" where
  "to_currency (Str s) = number_cell (to_currency_text s)"
| "to_currency (Num d) = number_cell (to_currency_text (float_str d))"
| "to_currency (Ts t) = NA"
| "to_currency NA = NA"

definition hundredfold :: "dec \<Rightarrow> dec" where
  "hundredfold d = mk_dec (neg d) (digits d) (point d + 2)"

definition to_percent_text :: "string \<Rightarrow> dec option" where
  "to_percent_text raw =
     (case parse_float (filter (\<lambda>c. c \<noteq> CHR ''%'' \<and> \<not> is_space c) raw) of
        None \<Rightarrow> None
      | Some v \<Rightarrow> Some (if dec_val v \<le> 1 then hundredfold v else v))"

fun to_percent :: "cell \<Rightarrow> cell" where
  "to_percent (Str s) = number_cell (to_percent_text s)"
| "to_percent (Num d) = number_cell (to_percent_text (float_str d))"
| "to_percent (Ts t) = NA"
| "to_percent NA = NA"

text \<open>\<^verbatim>\<open>.clip(0, 100)\<close> on one value; a missing value stays missing.\<close>

fun clip_0_100 :: "cell \<Rightarrow> cell" where
  "clip_0_100 (Num d) =
     Num (if dec_val d < 0 then Dec False [] 0
          else if dec_val d > 100 then Dec False [1] 3 else d)"
| "clip_0_100 c = c"

text \<open>
  \<^verbatim>\<open>pd.to_datetime(series, errors="coerce", utc=...)\<close> on one value. With \<^verbatim>\<open>utc=False\<close>
  a timestamp stays as it is, an aware one with its own offset; with \<^verbatim>\<open>utc=True\<close> a
  naive one is taken as UTC and an aware one is converted to UTC.
\<close>

fun to_datetime :: "bool \<Rightarrow> cell \<Rightarrow> cell" where
  "to_datetime utc (Ts t) =
     Ts (if utc then Timestamp (wall t - (case tz t of None \<Rightarrow> 0 | Some off \<Rightarrow> off)) (Some 0)
         else t)"
| "to_datetime utc c = NA"

text \<open>The comparisons of the two row filters; a comparison with a missing value is false.\<close>

fun is_positive :: "cell \<Rightarrow> bool" where
  "is_positive (Num d) = (dec_val d > 0)"
| "is_positive c = False"

fun is_non_negative :: "cell \<Rightarrow> bool" where
  "is_non_negative (Num d) = (dec_val d \<ge> 0)"
| "is_non_negative c = False"

section \<open>CSV processor: cleaning\<close>

text \<open>
  Three cell-wise conversions of \<^verbatim>\<open>_clean_data\<close> rest on pandas' time parser and on
  regular expressions with groups; they change no row count and no column the
  duplicate test reads, and are parameters of the model:
  \<^verbatim>\<open>pd.to_datetime(...).dt.time\<close>, \<^verbatim>\<open>parse_one\<close> of \<^verbatim>\<open>_duration_to_minutes\<close>, and the
  \<^verbatim>\<open>astype(str).str.strip().replace(...)\<close> of the location column.
\<close>

record conversions =
  time_of :: "cell \<Rightarrow> cell"
  parse_one :: "cell \<Rightarrow> cell"
  tidy_location :: "cell \<Rightarrow> cell"

text \<open>
  \<^verbatim>\<open>drop_duplicates(subset=..., keep="first", ignore_index=True)\<close>: a row is kept unless
  an earlier row has the same cells under the subset; missing values count as equal.
\<close>

fun drop_duplicates_from :: "('a \<Rightarrow> 'k) \<Rightarrow> 'k list \<Rightarrow> 'a list \<Rightarrow> 'a list" where
  "drop_duplicates_from key seen [] = []"
| "drop_duplicates_from key seen (r # rs) =
     (if key r \<in> set seen then drop_duplicates_from key seen rs
      else r # drop_duplicates_from key (key r # seen) rs)"

definition row_key :: "row \<Rightarrow> cell \<times> cell \<times> cell" where
  "row_key r = (r ''session_date'', r ''energy_added_kwh'', r ''total_cost'')"

definition drop_duplicates :: "table \<Rightarrow> table" where
  "drop_duplicates d = d\<lparr> rows := drop_duplicates_from row_key [] (rows d) \<rparr>"

definition when_col :: "string \<Rightarrow> (table \<Rightarrow> table) \<Rightarrow> table \<Rightarrow> table" where
  "when_col c f d = (if has_col d c then f d else d)"

definition clean_data :: "conversions \<Rightarrow> table \<Rightarrow> table" where
  "clean_data cv df =
     (let d = df;
          d = when_col ''session_date'' (map_col ''session_date'' (to_datetime False)) d;
          d = when_col ''session_time'' (map_col ''session_time'' (time_of cv)) d;
          d = when_col ''start_time'' (map_col ''start_time'' (time_of cv)) d;
          d = when_col ''end_time'' (map_col ''end_time'' (time_of cv)) d;
          d = when_col ''energy_added_kwh''
                (\<lambda>d. filter_rows (\<lambda>r. is_positive (r ''energy_added_kwh''))
                        (map_col ''energy_added_kwh'' to_number d)) d;
          d = when_col ''total_cost''
                (\<lambda>d. filter_rows (\<lambda>r. is_non_negative (r ''total_cost''))
                        (map_col ''total_cost'' to_currency d)) d;
          d = when_col ''max_power_kw'' (map_col ''max_power_kw'' to_number) d;
          d = when_col ''avg_power_kw'' (map_col ''avg_power_kw'' to_number) d;
          d = when_col ''start_soc_percent''
                (map_col ''start_soc_percent'' (\<lambda>c. clip_0_100 (to_percent c))) d;
          d = when_col ''end_soc_percent''
                (map_col ''end_soc_percent'' (\<lambda>c. clip_0_100 (to_percent c))) d;
          d = when_col ''charging_duration''
                (assign_col ''charging_duration_minutes'' ''charging_duration'' (parse_one cv)) d;
          d = when_col ''location_name'' (map_col ''location_name'' (tidy_location cv)) d;
          subset = filter (has_col d) [''session_date'', ''energy_added_kwh'', ''total_cost'']
      in if length subset = 3 then drop_duplicates d else d)"

section \<open>CSV processor: quality, summary and the public entry point\<close>

datatype DataQuality = EXCELLENT | GOOD | FAIR | POOR

text \<open>
  \<^verbatim>\<open>_assess_data_quality\<close>: \<^verbatim>\<open>df[c].notna().mean()\<close> is the fraction of the rows whose
  cell under \<open>c\<close> is not missing; \<^verbatim>\<open>np.mean\<close> averages these over the present columns.
\<close>

definition notna_mean :: "table \<Rightarrow> string \<Rightarrow> real" where
  "notna_mean d c = real (length (filter (\<lambda>r. r c \<noteq> NA) (rows d))) / real (length (rows d))"

definition completeness :: "table \<Rightarrow> string list \<Rightarrow> real" where
  "completeness d cols =
     (let present = filter (\<lambda>c. c \<in> set (columns d)) cols
      in if present = [] then 0
         else sum_list (map (notna_mean d) present) / real (length present))"

definition assess_data_quality :: "table \<Rightarrow> DataQuality" where
  "assess_data_quality d =
     (if is_empty d then POOR
      else
        let req = completeness d REQUIRED_COLUMNS;
            opt = completeness d OPTIONAL_COLUMNS;
            overall = 0.7 * req + 0.3 * opt
        in if overall \<ge> 0.95 then EXCELLENT
           else if overall \<ge> 0.85 then GOOD
           else if overall \<ge> 0.70 then FAIR
           else POOR)"

text \<open>
  A value of the metadata dict. \<open>MIso\<close> stands for the result of \<^verbatim>\<open>_safe_iso\<close>: the
  ISO text of the given timestamp, or \<^verbatim>\<open>None\<close>.
\<close>

datatype meta_value =
    MStr string
  | MInt int
  | MFloat real
  | MList "string list"
  | MIso "timestamp option"

record ProcessingResult =
  success :: bool
  data :: "table option"
  quality :: DataQuality
  issues :: "string list"
  metadata :: "(string \<times> meta_value) list"

definition instant :: "timestamp \<Rightarrow> real" where
  "instant t = real_of_int (wall t - (case tz t of None \<Rightarrow> 0 | Some off \<Rightarrow> off))"

fun timestamps_of :: "cell list \<Rightarrow> timestamp list" where
  "timestamps_of [] = []"
| "timestamps_of (Ts t # cs) = t # timestamps_of cs"
| "timestamps_of (c # cs) = timestamps_of cs"

text \<open>
  \<^verbatim>\<open>_safe_iso(df.get(col), which)\<close>: \<^verbatim>\<open>None\<close> for an absent or empty column and when
  no timestamp is left after skipping the missing values; otherwise the earliest or the
  latest timestamp. The source gives \<^verbatim>\<open>None\<close> when anything in it raises, and its
  \<^verbatim>\<open>np.issubdtype\<close> test raises on a column of timezone-aware timestamps.
\<close>

definition safe_iso :: "table \<Rightarrow> string \<Rightarrow> bool \<Rightarrow> timestamp option" where
  "safe_iso d c want_min =
     (if \<not> has_col d c \<or> rows d = [] then None
      else (case timestamps_of (map (\<lambda>r. r c) (rows d)) of
              [] \<Rightarrow> None
            | t # ts \<Rightarrow>
                if list_ex (\<lambda>x. tz x \<noteq> None) (t # ts) then None
                else Some (if want_min then py_min_by instant t ts
                           else py_max_by instant t ts)))"

fun numbers_of :: "cell list \<Rightarrow> real list" where
  "numbers_of [] = []"
| "numbers_of (Num d # cs) = dec_val d # numbers_of cs"
| "numbers_of (c # cs) = numbers_of cs"

text \<open>\<^verbatim>\<open>float(df[c].sum())\<close>, which skips missing values, guarded as in the source.\<close>

definition column_total :: "table \<Rightarrow> string \<Rightarrow> real" where
  "column_total d c =
     (if has_col d c \<and> rows d \<noteq> [] then sum_list (numbers_of (map (\<lambda>r. r c) (rows d))) else 0)"

definition fail :: "string list \<Rightarrow> (string \<times> meta_value) list \<Rightarrow> ProcessingResult" where
  "fail issues_list meta =
     \<lparr> success = False, data = None, quality = POOR, issues = issues_list, metadata = meta \<rparr>"

text \<open>
  The body of the \<^verbatim>\<open>try\<close> of \<^verbatim>\<open>process_csv\<close>. \<^verbatim>\<open>_read_csv_safely\<close> is file and pandas
  input; it is the parameter \<open>read_csv_safely\<close>, which returns the raw table or the
  exception it raises.
\<close>

definition process_csv_try ::
  "('src \<Rightarrow> exn + table) \<Rightarrow> conversions \<Rightarrow> 'src \<Rightarrow> exn + ProcessingResult" where
  "process_csv_try read_csv_safely cv source =
     (case read_csv_safely source of
        Inl e \<Rightarrow> Inl e
      | Inr df_raw \<Rightarrow>
          if is_empty df_raw
          then Inr (fail [''File contains no rows''] [(''rows_processed'', MInt 0)])
          else
            (case detect_format (columns df_raw) of
               Inl e \<Rightarrow> Inl e
             | Inr fmt \<Rightarrow>
                 let df = normalize_columns df_raw fmt;
                     structure_meta =
                       [(''format'', MStr fmt), (''original_columns'', MList (columns df_raw))];
                     (ok, issues_list) = validate_structure df
                 in if \<not> ok
                    then Inr (fail issues_list (structure_meta @ [(''rows_processed'', MInt 0)]))
                    else
                      let df = clean_data cv df;
                          q = assess_data_quality df;
                          meta = structure_meta @
                            [(''original_rows'', MInt (int (length (rows df_raw)))),
                             (''processed_rows'', MInt (int (length (rows df)))),
                             (''columns_available'', MList (columns df)),
                             (''date_range_start'', MIso (safe_iso df ''session_date'' True)),
                             (''date_range_end'', MIso (safe_iso df ''session_date'' False)),
                             (''total_energy_kwh'', MFloat (column_total df ''energy_added_kwh'')),
                             (''total_cost'', MFloat (column_total df ''total_cost''))]
                      in Inr \<lparr> success = True, data = Some df, quality = q,
                               issues = issues_list, metadata = meta \<rparr>))"

text \<open>\<^verbatim>\<open>process_csv\<close>: the \<^verbatim>\<open>try\<close> with its \<^verbatim>\<open>except Exception as e\<close>.\<close>

definition process_csv ::
  "('src \<Rightarrow> exn + table) \<Rightarrow> conversions \<Rightarrow> 'src \<Rightarrow> ProcessingResult" where
  "process_csv read_csv_safely cv source =
     (case process_csv_try read_csv_safely cv source of
        Inr result \<Rightarrow> result
      | Inl e \<Rightarrow>
          \<lparr> success = False, data = None, quality = POOR,
            issues = [''Processing error: '' @ exn_text e],
            metadata = [(''error'', MStr (exn_text e))] \<rparr>)"

section \<open>Efficiency calculator: frames\<close>

text \<open>
  The DataFrame the calculator works on. Its numbers are floats produced by arithmetic
  (quotients, sums), so a value is a real, a text, a timestamp or missing. A row gives the
  value under each label, \<open>VNone\<close> under a label that is not a column.
\<close>

datatype val = VNum real | VText string | VTime timestamp | VNone

type_synonym session = "string \<Rightarrow> val"

record frame =
  labels :: "string list"
  sessions :: "session list"

definition in_frame :: "frame \<Rightarrow> string \<Rightarrow> bool" where
  "in_frame df c = (c \<in> set (labels df))"

text \<open>\<^verbatim>\<open>df[c] = ...\<close> computed row by row, and \<^verbatim>\<open>df[mask]\<close>.\<close>

definition put_col :: "string \<Rightarrow> (session \<Rightarrow> val) \<Rightarrow> frame \<Rightarrow> frame" where
  "put_col c g df =
     \<lparr> labels = (if c \<in> set (labels df) then labels df else labels df @ [c]),
       sessions = map (\<lambda>r. r(c := g r)) (sessions df) \<rparr>"

definition keep_rows :: "(session \<Rightarrow> bool) \<Rightarrow> frame \<Rightarrow> frame" where
  "keep_rows P df = df\<lparr> sessions := filter P (sessions df) \<rparr>"

text \<open>\<^verbatim>\<open>str.strip()\<close>.\<close>

definition strip :: "string \<Rightarrow> string" where
  "strip s = rev (dropWhile is_space (rev (dropWhile is_space s)))"

text \<open>
  \<^verbatim>\<open>pd.to_numeric(..., errors="coerce")\<close> on one value; blanks around a number in a
  text are ignored.
\<close>

fun to_numeric :: "val \<Rightarrow> val" where
  "to_numeric (VNum x) = VNum x"
| "to_numeric (VText s) =
     (case parse_float (strip s) of None \<Rightarrow> VNone | Some d \<Rightarrow> VNum (dec_val d))"
| "to_numeric v = VNone"

text \<open>
  \<^verbatim>\<open>_to_datetime\<close>: \<^verbatim>\<open>pd.to_datetime(..., utc=True).dt.tz_convert(None)\<close>, the
  timestamp as naive UTC.
\<close>

fun utc_naive :: "val \<Rightarrow> val" where
  "utc_naive (VTime t) =
     VTime (Timestamp (wall t - (case tz t of None \<Rightarrow> 0 | Some off \<Rightarrow> off)) None)"
| "utc_naive v = VNone"

text \<open>
  The numbers of a column, missing values skipped as \<^verbatim>\<open>sum\<close> and \<^verbatim>\<open>mean\<close> skip them;
  the mean of no number is NaN (\<open>None\<close>).
\<close>

fun reals_of :: "val list \<Rightarrow> real list" where
  "reals_of [] = []"
| "reals_of (VNum x # vs) = x # reals_of vs"
| "reals_of (v # vs) = reals_of vs"

definition col_values :: "session list \<Rightarrow> string \<Rightarrow> real list" where
  "col_values rs c = reals_of (map (\<lambda>r. r c) rs)"

definition col_sum :: "session list \<Rightarrow> string \<Rightarrow> real" where
  "col_sum rs c = sum_list (col_values rs c)"

definition mean_of :: "real list \<Rightarrow> real option" where
  "mean_of xs = (if xs = [] then None else Some (sum_list xs / real (length xs)))"

definition col_mean :: "session list \<Rightarrow> string \<Rightarrow> real option" where
  "col_mean rs c = mean_of (col_values rs c)"

text \<open>
  The division of two floats: by zero it gives an infinity, or NaN for 0 / 0.
\<close>

definition float_div :: "real \<Rightarrow> real \<Rightarrow> xreal" where
  "float_div a b =
     (if b \<noteq> 0 then Fin (a / b) else if a > 0 then PInf else if a < 0 then MInf else NaN)"

text \<open>
  The division \<^verbatim>\<open>work["total_cost"] / work["energy_added_kwh"]\<close> of
  \<^verbatim>\<open>analyze_efficiency\<close> on one row. It is applied after the row filter, to rows whose
  energy is a number above 0; the alternative for a zero divisor is never taken there.
\<close>

fun pd_div :: "val \<Rightarrow> val \<Rightarrow> val" where
  "pd_div (VNum a) (VNum b) = (if b = 0 then VNone else VNum (a / b))"
| "pd_div a b = VNone"

text \<open>
  Calendar fields of a naive timestamp: the hour, the day of the week (Monday is 0;
  1970-01-01 was a Thursday), and the calendar month counted as \<open>12 * year + month - 1\<close>,
  by the usual conversion of a day count to a civil date.
\<close>

definition hour_of :: "timestamp \<Rightarrow> int" where
  "hour_of t = (wall t mod 86400) div 3600"

definition dayofweek_of :: "timestamp \<Rightarrow> int" where
  "dayofweek_of t = (wall t div 86400 + 3) mod 7"

definition month_index :: "timestamp \<Rightarrow> int" where
  "month_index t =
     (let z = wall t div 86400 + 719468;
          era = z div 146097;
          doe = z mod 146097;
          yoe = (doe - doe div 1460 + doe div 36524 - doe div 146096) div 365;
          doy = doe - (365 * yoe + yoe div 4 - yoe div 100);
          mp = (5 * doy + 2) div 153;
          m = (if mp < 10 then mp + 3 else mp - 9);
          y = yoe + era * 400 + (if m \<le> 2 then 1 else 0)
      in 12 * y + (m - 1))"

text \<open>
  \<^verbatim>\<open>Series.value_counts()\<close>: each distinct value with its number of occurrences, the
  most frequent first; values with the same count stay in the order of their first
  occurrence.
\<close>

definition value_counts :: "'a list \<Rightarrow> ('a \<times> nat) list" where
  "value_counts xs =
     sort_key (\<lambda>vn. - int (snd vn))
       (map (\<lambda>v. (v, count_list xs v)) (drop_duplicates_from (\<lambda>x. x) [] xs))"

section \<open>Efficiency calculator: charger categories\<close>

datatype ChargerType = HOME_AC | PUBLIC_AC | DC_FAST | SUPERCHARGER | UNKNOWN

fun charger_value :: "ChargerType \<Rightarrow> string" where
  "charger_value HOME_AC = ''home_ac''"
| "charger_value PUBLIC_AC = ''public_ac''"
| "charger_value DC_FAST = ''dc_fast''"
| "charger_value SUPERCHARGER = ''supercharger''"
| "charger_value UNKNOWN = ''unknown''"

definition word :: "rx \<Rightarrow> rx" where
  "word r = Cat Bnd (Cat r Bnd)"

text \<open>
  \<^verbatim>\<open>categorize_charger_type\<close>. The text is \<^verbatim>\<open>str(charger_info or "").lower()\<close>; a value
  that is not text prints as a number or as \<^verbatim>\<open>nan\<close>, which no pattern matches.
\<close>

definition categorize_charger_type :: "val \<Rightarrow> real \<Rightarrow> real option \<Rightarrow> ChargerType" where
  "categorize_charger_type charger_info energy_kwh duration_minutes =
     (let text = (case charger_info of VText s \<Rightarrow> lower s | _ \<Rightarrow> [])
      in if re_search (word (Alt (Lit ''supercharger'')
                              (Alt (Cat (Lit ''tesla'') (Cat Ws (Lit ''sc''))) (Cat (Lit ''v'') Dgt)))) text
         then SUPERCHARGER
         else if re_search (word (Alt (Lit ''dc'') (Alt (Lit ''fast'') (Alt (Lit ''rapid'')
                              (Alt (Lit ''ccs'') (Alt (Lit ''chademo'') (Lit ''chadmo''))))))) text
         then DC_FAST
         else if re_search (word (Alt (Lit ''home'') (Alt (Lit ''residential'') (Lit ''garage'')))) text
         then HOME_AC
         else if re_search (word (Alt (Lit ''public'')
                              (Alt (Cat (Lit ''level'') (Cat Ws (Lit ''2''))) (Alt (Lit ''l2'') (Lit ''ac''))))) text
         then PUBLIC_AC
         else (case duration_minutes of
                 None \<Rightarrow> UNKNOWN
               | Some d \<Rightarrow>
                   if d \<noteq> 0 \<and> d > 0 \<and> energy_kwh > 0
                   then (let power_kw = (energy_kwh * 60) / d
                         in if power_kw > 120 then SUPERCHARGER
                            else if power_kw > 80 then DC_FAST
                            else if power_kw > 15 then PUBLIC_AC
                            else HOME_AC)
                   else UNKNOWN))"

section \<open>Efficiency calculator: patterns and trends\<close>

fun times_of :: "val list \<Rightarrow> timestamp list" where
  "times_of [] = []"
| "times_of (VTime t # vs) = t # times_of vs"
| "times_of (v # vs) = times_of vs"

fun texts_of :: "val list \<Rightarrow> string list" where
  "texts_of [] = []"
| "texts_of (VText s # vs) = s # texts_of vs"
| "texts_of (v # vs) = texts_of vs"

text \<open>\<^verbatim>\<open>_safe_mean\<close>.\<close>

definition safe_mean :: "session list \<Rightarrow> string \<Rightarrow> real option" where
  "safe_mean rs c = mean_of (reals_of (map (\<lambda>r. to_numeric (r c)) rs))"

text \<open>
  \<^verbatim>\<open>analyze_charging_patterns\<close>. A row without a timestamp is no weekend row, so it
  counts among the weekday rows (\<^verbatim>\<open>is_weekend.size - wkd\<close>).
\<close>

definition analyze_charging_patterns :: "frame \<Rightarrow> ChargingPattern" where
  "analyze_charging_patterns df =
     (let rs = sessions df;
          avg_energy = safe_mean rs ''energy_added_kwh'';
          counts = value_counts (texts_of (map (\<lambda>r. r ''charger_type_category'') rs));
          preferred =
            (if in_frame df ''charger_type_category'' \<and> counts \<noteq> []
             then map fst (take 3 counts) else [''unknown'']);
          dts = times_of (map (\<lambda>r. utc_naive (r ''session_date'')) rs);
          peak_hours =
            (if in_frame df ''session_date'' \<and> dts \<noteq> []
             then map fst (take 3 (value_counts (map hour_of dts))) else []);
          wkd = length (filter (\<lambda>t. dayofweek_of t \<ge> 5) dts);
          wkdy = length rs - wkd;
          weekend_ratio =
            (if in_frame df ''session_date''
             then (if wkdy > 0 then real wkd / real wkdy else 1) else 1)
      in \<lparr> avg_session_energy = (case avg_energy of None \<Rightarrow> 0 | Some a \<Rightarrow> a),
           preferred_charger_types = preferred,
           peak_usage_hours = peak_hours,
           weekend_vs_weekday_ratio = weekend_ratio,
           avg_soc_start =
             (if in_frame df ''start_soc_percent'' then safe_mean rs ''start_soc_percent'' else None),
           avg_soc_end =
             (if in_frame df ''end_soc_percent'' then safe_mean rs ''end_soc_percent'' else None) \<rparr>)"

text \<open>
  A cell of a column that \<^verbatim>\<open>resample(...).agg(... "mean")\<close> averages: a float (NaN
  for a missing value), or something that is not a number (a text, a timestamp), on
  which the mean raises \<^verbatim>\<open>TypeError\<close>.
\<close>

datatype aggcell = ANum xreal | ABad

fun agg_cell :: "val \<Rightarrow> aggcell" where
  "agg_cell (VNum x) = ANum (Fin x)"
| "agg_cell VNone = ANum NaN"
| "agg_cell v = ABad"

text \<open>
  The \<^verbatim>\<open>cost_per_kwh\<close> cell of a row of \<^verbatim>\<open>tmp\<close>: the cell of the frame if the frame has
  the column, and otherwise the quotient of the coerced cost by the coerced energy,
  missing where either is missing.
\<close>

definition trend_cost_per_kwh :: "frame \<Rightarrow> session \<Rightarrow> aggcell" where
  "trend_cost_per_kwh df r =
     (if in_frame df ''cost_per_kwh'' then agg_cell (r ''cost_per_kwh'')
      else (case to_numeric (r ''total_cost'') of
              VNum a \<Rightarrow>
                (case to_numeric (r ''energy_added_kwh'') of
                   VNum b \<Rightarrow> ANum (float_div a b)
                 | _ \<Rightarrow> ANum NaN)
            | _ \<Rightarrow> ANum NaN))"

text \<open>
  The rows of \<^verbatim>\<open>tmp\<close> that fall in a calendar month, each with its month and its three
  aggregated cells (cost, energy, cost per kWh). The date is taken as naive UTC; a row
  without a timestamp falls in no month. Sorting the rows by date does not change the
  monthly table and is left out.
\<close>

fun trend_rows :: "frame \<Rightarrow> session list \<Rightarrow> (int \<times> aggcell \<times> aggcell \<times> aggcell) list" where
  "trend_rows df [] = []"
| "trend_rows df (r # rs) =
     (case utc_naive (r ''session_date'') of
        VTime t \<Rightarrow> [(month_index t, agg_cell (r ''total_cost''),
                       agg_cell (r ''energy_added_kwh''), trend_cost_per_kwh df r)]
      | _ \<Rightarrow> [])
     @ trend_rows df rs"

text \<open>The floats of a column that a mean takes into account: the missing ones are skipped.\<close>

fun floats_of :: "aggcell list \<Rightarrow> xreal list" where
  "floats_of [] = []"
| "floats_of (ANum x # cs) = (if x = NaN then floats_of cs else x # floats_of cs)"
| "floats_of (ABad # cs) = floats_of cs"

fun fin_part :: "xreal \<Rightarrow> real" where
  "fin_part (Fin x) = x"
| "fin_part x = 0"

text \<open>
  The mean of floats none of which is NaN: NaN for no float at all and when both
  infinities occur, an infinity when one of them occurs.
\<close>

definition xmean :: "xreal list \<Rightarrow> xreal" where
  "xmean xs =
     (if xs = [] then NaN
      else if PInf \<in> set xs \<and> MInf \<in> set xs then NaN
      else if PInf \<in> set xs then PInf
      else if MInf \<in> set xs then MInf
      else Fin (sum_list (map fin_part xs) / real (length xs)))"


text \<open>
  The monthly table:
  \<^verbatim>\<open>set_index("session_date").resample("MS").agg(mean ...).dropna(how="all")\<close>.
  Resampling makes one row per calendar month from the first to the last, in order, with
  the means of the rows of that month; a month whose three means are all NaN (a month
  without rows, for one) is dropped.
\<close>

definition monthly_means ::
  "(int \<times> aggcell \<times> aggcell \<times> aggcell) list \<Rightarrow> (xreal \<times> xreal \<times> xreal) list" where
  "monthly_means trs =
     (let months = sort (remdups (map fst trs));
          means = map (\<lambda>m. (xmean (floats_of (map (\<lambda>(m', c, e, k). c) (filter (\<lambda>tr. fst tr = m) trs))),
                             xmean (floats_of (map (\<lambda>(m', c, e, k). e) (filter (\<lambda>tr. fst tr = m) trs))),
                             xmean (floats_of (map (\<lambda>(m', c, e, k). k) (filter (\<lambda>tr. fst tr = m) trs)))))
                      months
      in filter (\<lambda>(c, e, k). \<not> (c = NaN \<and> e = NaN \<and> k = NaN)) means)"

text \<open>The difference of two floats and the quotient of a float by a positive number.\<close>

fun xsub :: "xreal \<Rightarrow> xreal \<Rightarrow> xreal" where
  "xsub (Fin a) (Fin b) = Fin (a - b)"
| "xsub NaN y = NaN"
| "xsub x NaN = NaN"
| "xsub PInf PInf = NaN"
| "xsub MInf MInf = NaN"
| "xsub PInf y = PInf"
| "xsub MInf y = MInf"
| "xsub (Fin a) PInf = MInf"
| "xsub (Fin a) MInf = PInf"

fun xdiv :: "xreal \<Rightarrow> real \<Rightarrow> xreal" where
  "xdiv (Fin a) n = Fin (a / n)"
| "xdiv x n = x"

text \<open>The local function \<^verbatim>\<open>slope\<close>; \<^verbatim>\<open>dropna\<close> removes the NaN and keeps an infinity.\<close>

definition slope :: "xreal list \<Rightarrow> xreal" where
  "slope series =
     (let s = filter (\<lambda>x. x \<noteq> NaN) series
      in if length s < 2 then Fin 0
         else xdiv (xsub (last s) (hd s)) (real (max 1 (length s - 1))))"

text \<open>
  \<^verbatim>\<open>analyze_temporal_trends\<close>; the result dict in insertion order. Reading the cost or
  the energy column of a frame that has none raises \<^verbatim>\<open>KeyError\<close>, and a mean over a
  cell that is not a number raises \<^verbatim>\<open>TypeError\<close>.
\<close>

definition analyze_temporal_trends :: "frame \<Rightarrow> exn + (string \<times> xreal) list" where
  "analyze_temporal_trends df =
     (if \<not> in_frame df ''session_date'' \<or> length (sessions df) < 6 then Inr []
      else if \<not> in_frame df ''total_cost'' then Inl (KeyError ''total_cost'')
      else if \<not> in_frame df ''energy_added_kwh'' then Inl (KeyError ''energy_added_kwh'')
      else
        let trs = trend_rows df (sessions df)
        in if list_ex (\<lambda>(m, c, e, k). c = ABad \<or> e = ABad \<or> k = ABad) trs
           then Inl (TypeError ''agg function failed [how->mean,dtype->object]'')
           else
             let monthly = monthly_means trs
             in if length monthly \<ge> 3
                then Inr [(''monthly_cost_trend'', slope (map (\<lambda>(c, e, k). c) monthly)),
                          (''monthly_efficiency_trend'', slope (map (\<lambda>(c, e, k). k) monthly)),
                          (''monthly_energy_trend'', slope (map (\<lambda>(c, e, k). e) monthly))]
                else Inr [])"

section \<open>Efficiency calculator: orchestration\<close>

text \<open>
  \<^verbatim>\<open>groupby\<close> hands out its groups with the keys sorted. The keys of
  \<^verbatim>\<open>charger_type_category\<close> are values of \<^verbatim>\<open>ChargerType\<close>; this is their alphabetical
  order.
\<close>

definition category_order :: "ChargerType list" where
  "category_order = [DC_FAST, HOME_AC, PUBLIC_AC, SUPERCHARGER, UNKNOWN]"

text \<open>The number in a cell of a numeric column, \<open>None\<close> for a missing value.\<close>

fun num_opt :: "val \<Rightarrow> real option" where
  "num_opt (VNum x) = Some x"
| "num_opt v = None"

text \<open>
  The mean duration of a group of rows, when the frame has the column. A NaN mean and
  \<^verbatim>\<open>None\<close> have the same effect on \<^verbatim>\<open>calculate_efficiency_metrics\<close>, no charging speed;
  both are \<open>None\<close>.
\<close>

definition group_duration :: "bool \<Rightarrow> session list \<Rightarrow> real option" where
  "group_duration has_duration rs =
     (if has_duration then col_mean rs ''charging_duration_minutes'' else None)"

text \<open>The loop \<^verbatim>\<open>for ct, subset in work.groupby("charger_type_category")\<close>.\<close>

fun by_type_loop :: "bool \<Rightarrow> session list \<Rightarrow> ChargerType list
    \<Rightarrow> exn + (string \<times> EfficiencyMetric) list" where
  "by_type_loop has_duration rs [] = Inr []"
| "by_type_loop has_duration rs (ct # cts) =
     (let subset = filter (\<lambda>r. r ''charger_type_category'' = VText (charger_value ct)) rs;
          energy = col_sum subset ''energy_added_kwh'';
          cost = col_sum subset ''total_cost'';
          duration = group_duration has_duration subset
      in if subset \<noteq> [] \<and> energy > 0
         then (case calculate_efficiency_metrics energy cost duration of
                 Inl e \<Rightarrow> Inl e
               | Inr m \<Rightarrow>
                   (case by_type_loop has_duration rs cts of
                      Inl e \<Rightarrow> Inl e
                    | Inr rest \<Rightarrow> Inr ((charger_value ct, m) # rest)))
         else by_type_loop has_duration rs cts)"

text \<open>The dict assignment \<^verbatim>\<open>d[k] = v\<close>.\<close>

fun dict_set :: "(string \<times> 'v) list \<Rightarrow> string \<Rightarrow> 'v \<Rightarrow> (string \<times> 'v) list" where
  "dict_set [] k v = [(k, v)]"
| "dict_set ((k', v') # kvs) k v =
     (if k' = k then (k, v) # kvs else (k', v') # dict_set kvs k v)"

text \<open>
  The loop over the rows of \<^verbatim>\<open>work.groupby("location_name", dropna=True).agg(...)\<close>:
  one row per location text, the texts sorted. The first argument is \<^verbatim>\<open>by_loc\<close> so far.
\<close>

fun by_loc_loop :: "(string \<times> EfficiencyMetric) list \<Rightarrow> bool \<Rightarrow> real \<Rightarrow> session list
    \<Rightarrow> string list \<Rightarrow> exn + (string \<times> EfficiencyMetric) list" where
  "by_loc_loop by_loc has_duration threshold rs [] = Inr by_loc"
| "by_loc_loop by_loc has_duration threshold rs (name # names) =
     (let subset = filter (\<lambda>r. r ''location_name'' = VText name) rs;
          loc = strip name;
          energy = col_sum subset ''energy_added_kwh'';
          cost = col_sum subset ''total_cost'';
          duration = group_duration has_duration subset
      in if loc \<noteq> [] \<and> energy \<ge> threshold
         then (case calculate_efficiency_metrics energy cost duration of
                 Inl e \<Rightarrow> Inl e
               | Inr m \<Rightarrow> by_loc_loop (dict_set by_loc loc m) has_duration threshold rs names)
         else by_loc_loop by_loc has_duration threshold rs names)"

text \<open>
  The first part of \<^verbatim>\<open>analyze_efficiency\<close>, up to the frame \<^verbatim>\<open>work\<close>: the guards, the
  conversions, the row filter and the two computed columns. Reading a column the frame
  does not have raises \<^verbatim>\<open>KeyError\<close>.
\<close>

fun is_pos :: "val \<Rightarrow> bool" where
  "is_pos (VNum x) = (x > 0)"
| "is_pos v = False"

fun is_nonneg :: "val \<Rightarrow> bool" where
  "is_nonneg (VNum x) = (x \<ge> 0)"
| "is_nonneg v = False"

definition categorize_row :: "bool \<Rightarrow> session \<Rightarrow> val" where
  "categorize_row has_duration r =
     VText (charger_value
       (categorize_charger_type (r ''charger_type'')
          (case r ''energy_added_kwh'' of VNum x \<Rightarrow> x | _ \<Rightarrow> 0)
          (if has_duration then num_opt (r ''charging_duration_minutes'') else None)))"

definition prepare_work :: "frame \<Rightarrow> exn + frame" where
  "prepare_work df =
     (if labels df = [] \<or> sessions df = [] then Inl (ValueError ''No data available for analysis'')
      else if \<not> in_frame df ''energy_added_kwh'' then Inl (KeyError ''energy_added_kwh'')
      else if \<not> in_frame df ''total_cost'' then Inl (KeyError ''total_cost'')
      else
        let work = put_col ''energy_added_kwh'' (\<lambda>r. to_numeric (r ''energy_added_kwh'')) df;
            work = put_col ''total_cost'' (\<lambda>r. to_numeric (r ''total_cost'')) work;
            work = (if in_frame work ''session_date''
                    then put_col ''session_date'' (\<lambda>r. utc_naive (r ''session_date'')) work
                    else work);
            work = keep_rows (\<lambda>r. is_pos (r ''energy_added_kwh'') \<and> is_nonneg (r ''total_cost'')) work
        in if sessions work = []
           then Inl (ValueError ''All rows were invalid after basic normalization.'')
           else
             let work = put_col ''cost_per_kwh''
                          (\<lambda>r. pd_div (r ''total_cost'') (r ''energy_added_kwh'')) work;
                 work = (if in_frame work ''charger_type''
                         then put_col ''charger_type_category''
                                (categorize_row (in_frame work ''charging_duration_minutes'')) work
                         else work)
             in Inr work)"

text \<open>
  The first pass of \<^verbatim>\<open>analyze_efficiency\<close>: the analysis object as the constructor call
  builds it, with no recommendations and no savings yet, together with \<^verbatim>\<open>work\<close> and
  \<^verbatim>\<open>total_energy\<close>, which the second pass uses.
\<close>

definition build_analysis :: "frame \<Rightarrow> exn + (EfficiencyAnalysis \<times> frame \<times> real)" where
  "build_analysis df =
     (case prepare_work df of
        Inl e \<Rightarrow> Inl e
      | Inr work \<Rightarrow>
          let rs = sessions work;
              has_duration = in_frame work ''charging_duration_minutes'';
              total_energy = col_sum rs ''energy_added_kwh'';
              total_cost = col_sum rs ''total_cost'';
              avg_duration = group_duration has_duration rs
          in case calculate_efficiency_metrics total_energy total_cost avg_duration of
               Inl e \<Rightarrow> Inl e
             | Inr overall \<Rightarrow>
                 (case (if in_frame work ''charger_type_category''
                        then by_type_loop has_duration rs category_order else Inr []) of
                    Inl e \<Rightarrow> Inl e
                  | Inr by_type \<Rightarrow>
                      (case (if in_frame work ''location_name''
                             then by_loc_loop [] has_duration (0.05 * total_energy) rs
                                    (sort (remdups (texts_of (map (\<lambda>r. r ''location_name'') rs))))
                             else Inr []) of
                         Inl e \<Rightarrow> Inl e
                       | Inr by_loc \<Rightarrow>
                           (case analyze_temporal_trends work of
                              Inl e \<Rightarrow> Inl e
                            | Inr trends \<Rightarrow>
                                Inr (\<lparr> overall_efficiency = overall,
                                       by_charger_type = by_type,
                                       by_location = by_loc,
                                       temporal_trends = trends,
                                       charging_patterns = analyze_charging_patterns work,
                                       recommendations = [],
                                       cost_savings_potential = 0 \<rparr>,
                                     work, total_energy)))))"

text \<open>
  \<^verbatim>\<open>EfficiencyAnalysis\<close> is declared \<^verbatim>\<open>@dataclass(frozen=True)\<close>. Assigning to a field of
  an instance of a frozen dataclass raises \<^verbatim>\<open>FrozenInstanceError\<close> and leaves the
  instance as it was.
\<close>

definition EfficiencyAnalysis_frozen :: bool where
  "EfficiencyAnalysis_frozen = True"

definition assign_field :: "string \<Rightarrow> (EfficiencyAnalysis \<Rightarrow> EfficiencyAnalysis)
    \<Rightarrow> EfficiencyAnalysis \<Rightarrow> exn + EfficiencyAnalysis" where
  "assign_field name update analysis =
     (if EfficiencyAnalysis_frozen
      then Inl (FrozenInstanceError (''cannot assign to field '' @ [CHR 0x27] @ name @ [CHR 0x27]))
      else Inr (update analysis))"

text \<open>
  \<^verbatim>\<open>analyze_efficiency\<close>: the first pass, then the two assignments
  \<^verbatim>\<open>analysis.recommendations = ...\<close> and \<^verbatim>\<open>analysis.cost_savings_potential = ...\<close>, each
  with its right-hand side evaluated first.
\<close>

definition analyze_efficiency :: "frame \<Rightarrow> exn + EfficiencyAnalysis" where
  "analyze_efficiency df =
     (case build_analysis df of
        Inl e \<Rightarrow> Inl e
      | Inr (analysis, work, total_energy) \<Rightarrow>
          (case compute_recommendations analysis of
             Inl e \<Rightarrow> Inl e
           | Inr recs \<Rightarrow>
               (case assign_field ''recommendations'' (\<lambda>a. a\<lparr> recommendations := recs \<rparr>) analysis of
                  Inl e \<Rightarrow> Inl e
                | Inr analysis \<Rightarrow>
                    assign_field ''cost_savings_potential''
                      (\<lambda>a. a\<lparr> cost_savings_potential :=
                                annual_savings_potential analysis total_energy \<rparr>)
                      analysis)))"

section \<open>The specification's description of the retained rows\<close>



section \<open>The specification's description of the trends\<close>

text \<open>
  The words of the specification, to compare with the code above: the table with its
  dates as naive UTC and a cost per kWh, cost / energy, on each row (none where the energy
  is 0 or a value is missing); the calendar months
  in which rows fall, in order; the mean of a column over the rows of a month; the
  months in which a column was observed; the non-empty months; and the trend of a
  column, (last observed monthly mean - first observed monthly mean) / (number of
  observed months - 1), taken as 0 when fewer than two months were observed.
\<close>














section \<open>Example inputs\<close>

text \<open>
  Inputs for the concrete instances below: conversions that leave a cell as it is, and
  two raw tables as \<^verbatim>\<open>_read_csv_safely\<close> returns them, one in the mobile export's layout
  and one whose labels match no format.
\<close>

definition no_conversions :: conversions where
  "no_conversions = \<lparr> time_of = (\<lambda>c. c), parse_one = (\<lambda>c. c), tidy_location = (\<lambda>c. c) \<rparr>"

definition blank_row :: row where
  "blank_row = (\<lambda>c. NA)"

definition mobile_example :: table where
  "mobile_example =
     \<lparr> columns = [''Date'', ''Energy Added (kWh)'', ''Cost'', ''Starting SOC''],
       rows = [blank_row(''Date'' := Ts (Timestamp 1704103200 None),
                         ''Energy Added (kWh)'' := Str ''10'',
                         ''Cost'' := Str ''$2.50'',
                         ''Starting SOC'' := Str ''50%'')] \<rparr>"

definition unknown_example :: table where
  "unknown_example = \<lparr> columns = [''Date'', ''Foo''], rows = [blank_row(''Foo'' := Str ''1'')] \<rparr>"


definition cleaning_example :: table where
  "cleaning_example =
     \<lparr> columns = [''session_date'', ''energy_added_kwh'', ''total_cost'', ''start_soc_percent''],
       rows =
         [blank_row(''session_date'' := Ts (Timestamp 1704103200 None),
                    ''energy_added_kwh'' := Str ''10'', ''total_cost'' := Str ''$2.50'',
                    ''start_soc_percent'' := Str ''150%''),
          blank_row(''session_date'' := Ts (Timestamp 1704103200 None),
                    ''energy_added_kwh'' := Str ''10.0'', ''total_cost'' := Str ''2.5'',
                    ''start_soc_percent'' := Str ''50%''),
          blank_row(''session_date'' := Ts (Timestamp 1704189600 None),
                    ''energy_added_kwh'' := Str ''0'', ''total_cost'' := Str ''1.00'',
                    ''start_soc_percent'' := Str ''20''),
          blank_row(''session_date'' := Ts (Timestamp 1704276000 None),
                    ''energy_added_kwh'' := Str ''5'', ''total_cost'' := Str ''-1.00'',
                    ''start_soc_percent'' := Str ''30''),
          blank_row(''session_date'' := Ts (Timestamp 1704362400 None),
                    ''energy_added_kwh'' := Str ''1,5'', ''total_cost'' := Str ''0'',
                    ''start_soc_percent'' := Str ''0.5'')] \<rparr>"

definition tiny_cost_example :: table where
  "tiny_cost_example =
     \<lparr> columns = [''session_date'', ''energy_added_kwh'', ''total_cost''],
       rows = [blank_row(''session_date'' := Ts (Timestamp 1704103200 None),
                         ''energy_added_kwh'' := Str ''10'',
                         ''total_cost'' := Str ''$0.00001'')] \<rparr>"





section \<open>Properties of the metric calculator\<close>

lemma rate_efficiency_cases:
  "rate_efficiency c =
     (if c \<le> 0.12 then ''excellent'' else if c \<le> 0.20 then ''good''
      else if c \<le> 0.35 then ''fair'' else ''poor'')"
  by (simp add: rate_efficiency_def EFFICIENCY_THRESHOLDS_def)

lemma rate_efficiency_first:
  "map_option fst (find (\<lambda>(label, bound). within_threshold c bound) EFFICIENCY_THRESHOLDS)
     = Some (rate_efficiency c)"
  by (simp add: rate_efficiency_def EFFICIENCY_THRESHOLDS_def)

text \<open>
  C6. The metric calculator raises exactly when the energy is not positive or the cost is
  negative. Otherwise it returns a metric with \<open>cost_per_kwh = cost / energy\<close>;
  \<open>kwh_per_dollar = energy / cost\<close> for a positive cost and 0 exactly when the cost is 0;
  \<open>charging_speed_kw = energy * 60 / duration\<close> for a positive duration and absent
  otherwise; and the rating is the first label of the ordered threshold table
  (excellent 0.12, good 0.20, fair 0.35, poor unbounded) whose bound the cost per kWh does
  not exceed.
\<close>

theorem calculate_efficiency_metrics_spec:
  "(isl (calculate_efficiency_metrics energy cost duration) \<longleftrightarrow> (energy \<le> 0 \<or> cost < 0))
   \<and> (\<forall>m. calculate_efficiency_metrics energy cost duration = Inr m \<longrightarrow>
          cost_per_kwh m = cost / energy
        \<and> (cost > 0 \<longrightarrow> kwh_per_dollar m = energy / cost)
        \<and> (kwh_per_dollar m = 0 \<longleftrightarrow> cost = 0)
        \<and> charging_speed_kw m =
            (case duration of None \<Rightarrow> None
             | Some d \<Rightarrow> if d > 0 then Some (energy * 60 / d) else None)
        \<and> map_option fst (find (\<lambda>(label, bound). within_threshold (cost_per_kwh m) bound)
                             EFFICIENCY_THRESHOLDS) = Some (efficiency_rating m)
        \<and> efficiency_rating m =
            (if cost_per_kwh m \<le> 0.12 then ''excellent''
             else if cost_per_kwh m \<le> 0.20 then ''good''
             else if cost_per_kwh m \<le> 0.35 then ''fair'' else ''poor''))"
proof (cases "energy \<le> 0 \<or> cost < 0")
  case True
  then show ?thesis by (simp add: calculate_efficiency_metrics_def)
next
  case False
  then have pos: "energy > 0" "cost \<ge> 0" by auto
  have speed: "(case duration of None \<Rightarrow> None
                | Some d \<Rightarrow> if d \<noteq> 0 \<and> d > 0 then Some ((energy * 60) / d) else None)
             = (case duration of None \<Rightarrow> None
                | Some d \<Rightarrow> if d > 0 then Some (energy * 60 / d) else None)"
    by (simp split: option.splits)
  from False pos show ?thesis
    unfolding calculate_efficiency_metrics_def Let_def speed
    by (auto simp: rate_efficiency_cases rate_efficiency_first)
qed

theorem calculate_efficiency_metrics_spec_witness:
  "isl (calculate_efficiency_metrics 0 5 None)
   \<and> isl (calculate_efficiency_metrics 10 (-1) None)
   \<and> (\<exists>m. calculate_efficiency_metrics 10 2 (Some 30) = Inr m
        \<and> cost_per_kwh m = 1 / 5 \<and> kwh_per_dollar m = 5
        \<and> charging_speed_kw m = Some 20 \<and> efficiency_rating m = ''good'')
   \<and> (\<exists>m. calculate_efficiency_metrics 10 0 None = Inr m
        \<and> kwh_per_dollar m = 0 \<and> charging_speed_kw m = None
        \<and> efficiency_rating m = ''excellent'')"
proof -
  have a: "isl (calculate_efficiency_metrics 0 5 None)"
    using calculate_efficiency_metrics_spec [of 0 5 None] by simp
  have b: "isl (calculate_efficiency_metrics 10 (-1) None)"
    using calculate_efficiency_metrics_spec [of 10 "-1" None] by simp
  have "\<not> isl (calculate_efficiency_metrics 10 2 (Some 30))"
    using calculate_efficiency_metrics_spec [of 10 2 "Some 30"] by simp
  then obtain m where m: "calculate_efficiency_metrics 10 2 (Some 30) = Inr m"
    by (cases "calculate_efficiency_metrics 10 2 (Some 30)") auto
  have c: "cost_per_kwh m = 1 / 5 \<and> kwh_per_dollar m = 5
        \<and> charging_speed_kw m = Some 20 \<and> efficiency_rating m = ''good''"
    using calculate_efficiency_metrics_spec [of 10 2 "Some 30"] m by simp
  have "\<not> isl (calculate_efficiency_metrics 10 0 None)"
    using calculate_efficiency_metrics_spec [of 10 0 None] by simp
  then obtain n where n: "calculate_efficiency_metrics 10 0 None = Inr n"
    by (cases "calculate_efficiency_metrics 10 0 None") auto
  have d: "kwh_per_dollar n = 0 \<and> charging_speed_kw n = None
        \<and> efficiency_rating n = ''excellent''"
    using calculate_efficiency_metrics_spec [of 10 0 None] n by simp
  from a b m c n d show ?thesis by blast
qed

section \<open>Properties of the recommendations\<close>









text \<open>
  C8. The claim asks for the price-gap note whenever the gap between the most expensive
  and the cheapest category is at least 0.10 per kWh. The source tests
  \<^verbatim>\<open>delta > 0.10\<close> (beside the comment "at least 10 cents"), so at a gap of exactly
  0.10 no note is produced: with home_ac at 0.15 and supercharger at 0.25 per kWh the
  gap is 0.10 and the list of recommendations is empty.
\<close>

theorem price_gap_of_ten_cents_gives_no_note:
  "cost_per_kwh \<lparr> kwh_per_dollar = 4, cost_per_kwh = 0.25,
                   charging_speed_kw = None, efficiency_rating = ''fair'' \<rparr>
     - cost_per_kwh \<lparr> kwh_per_dollar = 20 / 3, cost_per_kwh = 0.15,
                       charging_speed_kw = None, efficiency_rating = ''good'' \<rparr> = 0.10
   \<and> calculate_efficiency_metrics 10 1.5 None
       = Inr \<lparr> kwh_per_dollar = 20 / 3, cost_per_kwh = 0.15,
                charging_speed_kw = None, efficiency_rating = ''good'' \<rparr>
   \<and> calculate_efficiency_metrics 10 2.5 None
       = Inr \<lparr> kwh_per_dollar = 4, cost_per_kwh = 0.25,
                charging_speed_kw = None, efficiency_rating = ''fair'' \<rparr>
   \<and> compute_recommendations
     \<lparr> overall_efficiency = \<lparr> kwh_per_dollar = 5, cost_per_kwh = 0.20,
                              charging_speed_kw = None, efficiency_rating = ''good'' \<rparr>,
       by_charger_type =
         [(''home_ac'', \<lparr> kwh_per_dollar = 20 / 3, cost_per_kwh = 0.15,
                           charging_speed_kw = None, efficiency_rating = ''good'' \<rparr>),
          (''supercharger'', \<lparr> kwh_per_dollar = 4, cost_per_kwh = 0.25,
                                charging_speed_kw = None, efficiency_rating = ''fair'' \<rparr>)],
       by_location = [], temporal_trends = [],
       charging_patterns =
         \<lparr> avg_session_energy = 40, preferred_charger_types = [''home_ac'', ''supercharger''],
           peak_usage_hours = [], weekend_vs_weekday_ratio = 1,
           avg_soc_start = None, avg_soc_end = None \<rparr>,
       recommendations = [], cost_savings_potential = 0 \<rparr> = Inr []"
  by (simp add: compute_recommendations_def charger_mix_notes_def
      calculate_efficiency_metrics_def rate_efficiency_cases)

section \<open>Properties of the number parser\<close>

lemmas number_parser_defs =
  to_number_text_def to_currency_text_def number_chars_def currency_chars_def
  parse_float_def parse_exponent_def is_digit_def digit_of_def mk_dec_def
  strip_trailing_zeros_def digits_value_def

text \<open>
  C2, as stated: the number parser maps "1.234,56" to 1234.56. It does not: the text has
  both a comma and a dot, so the comma is removed and the dot stays the decimal point.
\<close>

theorem to_number_dot_then_comma_counterexample:
  "map_option dec_val (to_number_text ''1.234,56'') \<noteq> Some 1234.56"
  by (simp add: number_parser_defs dec_val_def)

text \<open>
  C2, amended. The number parser maps "1,234.56" to 1234.56 and "12,5" to 12.5; a text
  with both a comma and a dot loses its commas and keeps its dots, so "1.234,56" is read
  as "1.23456", the number 1.23456.
\<close>

theorem to_number_examples:
  "map_option dec_val (to_number_text ''1,234.56'') = Some 1234.56
   \<and> map_option dec_val (to_number_text ''12,5'') = Some 12.5
   \<and> map_option dec_val (to_number_text ''1.234,56'') = Some 1.23456"
  by (simp add: number_parser_defs dec_val_def)

section \<open>Properties of the format detector and of the public entry point\<close>

lemma energy_like_kWh: "energy_like ''kWh''"
  by code_simp

lemma cost_like_Cost: "cost_like ''Cost''"
  by code_simp

lemma detect_format_decision:
  "detect_format cols =
     (if ''Energy Added (kWh)'' \<in> set cols \<and> ''Starting SOC'' \<in> set cols then Inr ''tesla_mobile''
      else if ''Energy Delivered (kWh)'' \<in> set cols \<and> ''Charge Cost'' \<in> set cols then Inr ''tesla_web''
      else if ''kWh'' \<in> set cols \<and> ''Start %'' \<in> set cols \<and> ''End %'' \<in> set cols then Inr ''teslafi''
      else if (\<exists>c \<in> set cols. energy_like c) \<and> (\<exists>c \<in> set cols. cost_like c) then Inr ''generic''
      else Inl (ValueError ''Unrecognized CSV format; headers do not match expected patterns''))"
  by (simp add: detect_format_def list_ex_iff)

lemma generic_kwh_cost: "set cols = {''kWh'', ''Cost''} \<Longrightarrow> detect_format cols = Inr ''generic''"
  using energy_like_kWh cost_like_Cost
  by (simp add: detect_format_decision)

lemma try_read_raises: "rd src = Inl e \<Longrightarrow> process_csv_try rd cv src = Inl e"
  by (simp add: process_csv_try_def)

lemma try_detect_raises:
  "rd src = Inr raw \<Longrightarrow> \<not> is_empty raw \<Longrightarrow> detect_format (columns raw) = Inl e
   \<Longrightarrow> process_csv_try rd cv src = Inl e"
  by (simp add: process_csv_try_def)

lemma try_Inl_cases:
  "process_csv_try rd cv src = Inl e \<Longrightarrow>
     rd src = Inl e \<or> (\<exists>raw. rd src = Inr raw \<and> \<not> is_empty raw \<and> detect_format (columns raw) = Inl e)"
  by (auto simp: process_csv_try_def Let_def split: sum.splits if_splits prod.splits)

lemma try_Inr_shape:
  "process_csv_try rd cv src = Inr r \<Longrightarrow>
     (success r \<longrightarrow> data r \<noteq> None) \<and> (\<not> success r \<longrightarrow> data r = None \<and> quality r = POOR)"
  by (auto simp: process_csv_try_def Let_def fail_def split: sum.splits if_splits prod.splits)

text \<open>
  C3. \<^verbatim>\<open>process_csv\<close> returns a \<open>ProcessingResult\<close> for every source and never raises:
  whatever exception the body of its \<^verbatim>\<open>try\<close> raises (from reading the source, from the
  format detector) is turned into a result with \<open>success = False\<close> whose issues hold the
  exception's text; a result the body returns is returned unchanged.
\<close>

theorem process_csv_never_raises:
  "(\<forall>e. process_csv_try rd cv src = Inl e \<longrightarrow>
        process_csv rd cv src =
          \<lparr> success = False, data = None, quality = POOR,
            issues = [''Processing error: '' @ exn_text e],
            metadata = [(''error'', MStr (exn_text e))] \<rparr>)
   \<and> (\<forall>r. process_csv_try rd cv src = Inr r \<longrightarrow> process_csv rd cv src = r)
   \<and> (\<forall>e. rd src = Inl e \<longrightarrow>
          \<not> success (process_csv rd cv src)
        \<and> issues (process_csv rd cv src) = [''Processing error: '' @ exn_text e])
   \<and> (\<forall>raw e. rd src = Inr raw \<and> \<not> is_empty raw \<and> detect_format (columns raw) = Inl e \<longrightarrow>
          \<not> success (process_csv rd cv src)
        \<and> issues (process_csv rd cv src) = [''Processing error: '' @ exn_text e])"
proof -
  have a: "\<forall>e. process_csv_try rd cv src = Inl e \<longrightarrow>
        process_csv rd cv src =
          \<lparr> success = False, data = None, quality = POOR,
            issues = [''Processing error: '' @ exn_text e],
            metadata = [(''error'', MStr (exn_text e))] \<rparr>"
    by (simp add: process_csv_def)
  have b: "\<forall>r. process_csv_try rd cv src = Inr r \<longrightarrow> process_csv rd cv src = r"
    by (simp add: process_csv_def)
  have c: "\<forall>e. rd src = Inl e \<longrightarrow>
          \<not> success (process_csv rd cv src)
        \<and> issues (process_csv rd cv src) = [''Processing error: '' @ exn_text e]"
    using try_read_raises[of rd src _ cv] by (simp add: process_csv_def)
  have d: "\<forall>raw e. rd src = Inr raw \<and> \<not> is_empty raw \<and> detect_format (columns raw) = Inl e \<longrightarrow>
          \<not> success (process_csv rd cv src)
        \<and> issues (process_csv rd cv src) = [''Processing error: '' @ exn_text e]"
    using try_detect_raises[of rd src _ _ cv] by (simp add: process_csv_def)
  from a b c d show ?thesis by blast
qed

theorem process_csv_never_raises_witness:
  "issues (process_csv (\<lambda>s. Inl (FileNotFoundError (''No such file: '' @ s))) no_conversions ''missing.csv'')
     = [''Processing error: No such file: missing.csv'']
   \<and> \<not> success (process_csv (\<lambda>s. Inl (FileNotFoundError (''No such file: '' @ s))) no_conversions ''missing.csv'')
   \<and> issues (process_csv (\<lambda>s. Inr unknown_example) no_conversions ''upload.csv'')
     = [''Processing error: Unrecognized CSV format; headers do not match expected patterns'']
   \<and> \<not> success (process_csv (\<lambda>s. Inr unknown_example) no_conversions ''upload.csv'')"
proof -
  have det: "detect_format (columns unknown_example)
      = Inl (ValueError ''Unrecognized CSV format; headers do not match expected patterns'')"
    by code_simp
  have ne: "\<not> is_empty unknown_example"
    by (simp add: is_empty_def unknown_example_def)
  show ?thesis
    using process_csv_never_raises
            [of "\<lambda>s. Inl (FileNotFoundError (''No such file: '' @ s))" no_conversions "''missing.csv''"]
          process_csv_never_raises [of "\<lambda>s. Inr unknown_example" no_conversions "''upload.csv''"]
          det ne
    by simp
qed

text \<open>
  C10. Every result of \<^verbatim>\<open>process_csv\<close> with \<open>success = False\<close> has no data and quality
  \<open>POOR\<close>; every result with \<open>success = True\<close> carries a table.
\<close>

theorem process_csv_result_shape:
  "(\<not> success (process_csv rd cv src) \<longrightarrow>
        data (process_csv rd cv src) = None \<and> quality (process_csv rd cv src) = POOR)
   \<and> (success (process_csv rd cv src) \<longrightarrow> data (process_csv rd cv src) \<noteq> None)"
proof (cases "process_csv_try rd cv src")
  case (Inl e)
  then show ?thesis by (simp add: process_csv_def)
next
  case (Inr r)
  with try_Inr_shape[OF Inr] show ?thesis by (simp add: process_csv_def)
qed

lemma mobile_success: "success (process_csv (\<lambda>s. Inr mobile_example) no_conversions ''upload.csv'')"
  by (simp add: process_csv_def process_csv_try_def mobile_example_def is_empty_def detect_format_def
      normalize_columns_def COLUMN_MAPPINGS_def validate_structure_def REQUIRED_COLUMNS_def rename_def
      new_label_def Let_def)

theorem process_csv_result_shape_witness:
  "success (process_csv (\<lambda>s. Inr mobile_example) no_conversions ''upload.csv'')
   \<and> data (process_csv (\<lambda>s. Inr mobile_example) no_conversions ''upload.csv'') \<noteq> None
   \<and> \<not> success (process_csv (\<lambda>s. Inr unknown_example) no_conversions ''upload.csv'')
   \<and> data (process_csv (\<lambda>s. Inr unknown_example) no_conversions ''upload.csv'') = None
   \<and> quality (process_csv (\<lambda>s. Inr unknown_example) no_conversions ''upload.csv'') = POOR"
proof -
  have det: "detect_format (columns unknown_example)
      = Inl (ValueError ''Unrecognized CSV format; headers do not match expected patterns'')"
    by code_simp
  have ne: "\<not> is_empty unknown_example"
    by (simp add: is_empty_def unknown_example_def)
  have f: "\<not> success (process_csv (\<lambda>s. Inr unknown_example) no_conversions ''upload.csv'')"
    using det ne by (simp add: process_csv_def process_csv_try_def)
  show ?thesis
    using process_csv_result_shape [of "\<lambda>s. Inr mobile_example" no_conversions "''upload.csv''"]
          process_csv_result_shape [of "\<lambda>s. Inr unknown_example" no_conversions "''upload.csv''"]
          mobile_success f
    by simp
qed

text \<open>
  C9, as stated, says that a header set with no energy-like or no cost-like column
  raises the unrecognized-format error. The three known formats are tested first and do
  not ask for both: "kWh", "Start %", "End %" has no cost-like label and is the TeslaFi
  format, and "Energy Added (kWh)", "Starting SOC" has none either and is the mobile
  format.
\<close>

theorem detect_format_known_without_cost_counterexample:
  "list_all (\<lambda>c. \<not> cost_like c) [''kWh'', ''Start %'', ''End %'']
   \<and> detect_format [''kWh'', ''Start %'', ''End %''] = Inr ''teslafi''
   \<and> list_all (\<lambda>c. \<not> cost_like c) [''Energy Added (kWh)'', ''Starting SOC'']
   \<and> detect_format [''Energy Added (kWh)'', ''Starting SOC''] = Inr ''tesla_mobile''
   \<and> \<not> (\<forall>cols. (\<forall>c \<in> set cols. \<not> energy_like c) \<or> (\<forall>c \<in> set cols. \<not> cost_like c)
                 \<longrightarrow> isl (detect_format cols))"
proof -
  have a: "list_all (\<lambda>c. \<not> cost_like c) [''kWh'', ''Start %'', ''End %'']"
    by code_simp
  have b: "detect_format [''kWh'', ''Start %'', ''End %''] = Inr ''teslafi''"
    by (simp add: detect_format_decision)
  have c: "list_all (\<lambda>c. \<not> cost_like c) [''Energy Added (kWh)'', ''Starting SOC'']"
    by code_simp
  have d: "detect_format [''Energy Added (kWh)'', ''Starting SOC''] = Inr ''tesla_mobile''"
    by (simp add: detect_format_decision)
  have "\<not> ((\<forall>c \<in> set [''kWh'', ''Start %'', ''End %'']. \<not> energy_like c)
            \<or> (\<forall>c \<in> set [''kWh'', ''Start %'', ''End %'']. \<not> cost_like c)
          \<longrightarrow> isl (detect_format [''kWh'', ''Start %'', ''End %'']))"
    using a b by (simp add: list_all_iff)
  then have e: "\<not> (\<forall>cols. (\<forall>c \<in> set cols. \<not> energy_like c) \<or> (\<forall>c \<in> set cols. \<not> cost_like c)
                 \<longrightarrow> isl (detect_format cols))"
    by blast
  from a b c d e show ?thesis by blast
qed

text \<open>
  C9, amended. The format detector checks its rules in a fixed order and the first match
  wins: a header set with both "Energy Added (kWh)" and "Starting SOC" is the mobile
  format whatever else it holds; the set of "kWh" and "Cost" alone is generic; and a
  header set that matches none of the three known formats and has no energy-like or no
  cost-like label raises the unrecognized-format error, after which \<^verbatim>\<open>process_csv\<close>
  returns a failure without a table: no row is processed.
\<close>

theorem detect_format_rules:
  "detect_format cols =
     (if ''Energy Added (kWh)'' \<in> set cols \<and> ''Starting SOC'' \<in> set cols then Inr ''tesla_mobile''
      else if ''Energy Delivered (kWh)'' \<in> set cols \<and> ''Charge Cost'' \<in> set cols then Inr ''tesla_web''
      else if ''kWh'' \<in> set cols \<and> ''Start %'' \<in> set cols \<and> ''End %'' \<in> set cols then Inr ''teslafi''
      else if (\<exists>c \<in> set cols. energy_like c) \<and> (\<exists>c \<in> set cols. cost_like c) then Inr ''generic''
      else Inl (ValueError ''Unrecognized CSV format; headers do not match expected patterns''))
   \<and> ({''Energy Added (kWh)'', ''Starting SOC''} \<subseteq> set cols \<longrightarrow> detect_format cols = Inr ''tesla_mobile'')
   \<and> (set cols = {''kWh'', ''Cost''} \<longrightarrow> detect_format cols = Inr ''generic'')
   \<and> (\<not> {''Energy Added (kWh)'', ''Starting SOC''} \<subseteq> set cols
      \<and> \<not> {''Energy Delivered (kWh)'', ''Charge Cost''} \<subseteq> set cols
      \<and> \<not> {''kWh'', ''Start %'', ''End %''} \<subseteq> set cols
      \<and> ((\<forall>c \<in> set cols. \<not> energy_like c) \<or> (\<forall>c \<in> set cols. \<not> cost_like c)) \<longrightarrow>
        detect_format cols
          = Inl (ValueError ''Unrecognized CSV format; headers do not match expected patterns'')
      \<and> (\<forall>rd cv (src :: string) rws. rd src = Inr \<lparr> columns = cols, rows = rws \<rparr> \<longrightarrow>
            \<not> success (process_csv rd cv src) \<and> data (process_csv rd cv src) = None))"
proof -
  have dec: "detect_format cols =
     (if ''Energy Added (kWh)'' \<in> set cols \<and> ''Starting SOC'' \<in> set cols then Inr ''tesla_mobile''
      else if ''Energy Delivered (kWh)'' \<in> set cols \<and> ''Charge Cost'' \<in> set cols then Inr ''tesla_web''
      else if ''kWh'' \<in> set cols \<and> ''Start %'' \<in> set cols \<and> ''End %'' \<in> set cols then Inr ''teslafi''
      else if (\<exists>c \<in> set cols. energy_like c) \<and> (\<exists>c \<in> set cols. cost_like c) then Inr ''generic''
      else Inl (ValueError ''Unrecognized CSV format; headers do not match expected patterns''))"
    by (rule detect_format_decision)
  have mob: "{''Energy Added (kWh)'', ''Starting SOC''} \<subseteq> set cols \<longrightarrow> detect_format cols = Inr ''tesla_mobile''"
    by (simp add: detect_format_decision)
  have gen: "set cols = {''kWh'', ''Cost''} \<longrightarrow> detect_format cols = Inr ''generic''"
    using generic_kwh_cost by blast
  have unk: "\<not> {''Energy Added (kWh)'', ''Starting SOC''} \<subseteq> set cols
      \<and> \<not> {''Energy Delivered (kWh)'', ''Charge Cost''} \<subseteq> set cols
      \<and> \<not> {''kWh'', ''Start %'', ''End %''} \<subseteq> set cols
      \<and> ((\<forall>c \<in> set cols. \<not> energy_like c) \<or> (\<forall>c \<in> set cols. \<not> cost_like c)) \<longrightarrow>
        detect_format cols
          = Inl (ValueError ''Unrecognized CSV format; headers do not match expected patterns'')
      \<and> (\<forall>rd cv (src :: string) rws. rd src = Inr \<lparr> columns = cols, rows = rws \<rparr> \<longrightarrow>
            \<not> success (process_csv rd cv src) \<and> data (process_csv rd cv src) = None)"
  proof (intro impI)
    assume h: "\<not> {''Energy Added (kWh)'', ''Starting SOC''} \<subseteq> set cols
      \<and> \<not> {''Energy Delivered (kWh)'', ''Charge Cost''} \<subseteq> set cols
      \<and> \<not> {''kWh'', ''Start %'', ''End %''} \<subseteq> set cols
      \<and> ((\<forall>c \<in> set cols. \<not> energy_like c) \<or> (\<forall>c \<in> set cols. \<not> cost_like c))"
    then have d: "detect_format cols
          = Inl (ValueError ''Unrecognized CSV format; headers do not match expected patterns'')"
      by (auto simp: detect_format_decision)
    have "\<not> success (process_csv rd cv src) \<and> data (process_csv rd cv src) = None"
      if "rd src = Inr \<lparr> columns = cols, rows = rws \<rparr>" for rd cv and src :: string and rws
      using that d by (simp add: process_csv_def process_csv_try_def fail_def)
    with d show "detect_format cols
          = Inl (ValueError ''Unrecognized CSV format; headers do not match expected patterns'')
      \<and> (\<forall>rd cv (src :: string) rws. rd src = Inr \<lparr> columns = cols, rows = rws \<rparr> \<longrightarrow>
            \<not> success (process_csv rd cv src) \<and> data (process_csv rd cv src) = None)"
      by blast
  qed
  from dec mob gen unk show ?thesis by blast
qed

theorem detect_format_rules_witness:
  "detect_format [''Energy Added (kWh)'', ''Starting SOC'', ''Energy Delivered (kWh)'', ''Charge Cost'']
     = Inr ''tesla_mobile''
   \<and> detect_format [''kWh'', ''Cost''] = Inr ''generic''
   \<and> detect_format [''Date'', ''Foo'']
     = Inl (ValueError ''Unrecognized CSV format; headers do not match expected patterns'')
   \<and> data (process_csv (\<lambda>s. Inr unknown_example) no_conversions ''upload.csv'') = None
   \<and> list_ex energy_like [''kWh'', ''Foo'']
   \<and> detect_format [''kWh'', ''Foo'']
     = Inl (ValueError ''Unrecognized CSV format; headers do not match expected patterns'')
   \<and> list_ex cost_like [''Date'', ''Fee'']
   \<and> detect_format [''Date'', ''Fee'']
     = Inl (ValueError ''Unrecognized CSV format; headers do not match expected patterns'')"
proof -
  have a: "detect_format [''Energy Added (kWh)'', ''Starting SOC'', ''Energy Delivered (kWh)'', ''Charge Cost'']
     = Inr ''tesla_mobile''"
    using detect_format_rules
      [of "[''Energy Added (kWh)'', ''Starting SOC'', ''Energy Delivered (kWh)'', ''Charge Cost'']"]
    by simp
  have b: "detect_format [''kWh'', ''Cost''] = Inr ''generic''"
    using detect_format_rules [of "[''kWh'', ''Cost'']"] by auto
  have e: "\<not> energy_like ''Date'' \<and> \<not> energy_like ''Foo''"
    by code_simp
  have c: "detect_format [''Date'', ''Foo'']
     = Inl (ValueError ''Unrecognized CSV format; headers do not match expected patterns'')
     \<and> data (process_csv (\<lambda>s. Inr unknown_example) no_conversions ''upload.csv'') = None"
    using detect_format_rules [of "[''Date'', ''Foo'']"] e
    by (simp add: unknown_example_def)
  have f: "\<not> cost_like ''kWh'' \<and> \<not> cost_like ''Foo''"
    by code_simp
  have g: "list_ex energy_like [''kWh'', ''Foo'']"
    by code_simp
  have d: "detect_format [''kWh'', ''Foo'']
     = Inl (ValueError ''Unrecognized CSV format; headers do not match expected patterns'')"
    using detect_format_rules [of "[''kWh'', ''Foo'']"] f by simp
  have h: "\<not> energy_like ''Date'' \<and> \<not> energy_like ''Fee''"
    by code_simp
  have i: "list_ex cost_like [''Date'', ''Fee'']"
    by code_simp
  have j: "detect_format [''Date'', ''Fee'']
     = Inl (ValueError ''Unrecognized CSV format; headers do not match expected patterns'')"
    using detect_format_rules [of "[''Date'', ''Fee'']"] h by simp
  from a b c d g i j show ?thesis by blast
qed

section \<open>Properties of the cleaner\<close>

subsection \<open>Steps of the cleaner\<close>

lemma has_col_when_map [simp]:
  "has_col (when_col c (map_col c' g) d) x = has_col d x"
  by (simp add: when_col_def map_col_def has_col_def)

lemma has_col_when_filter_map [simp]:
  "has_col (when_col c (\<lambda>d. filter_rows P (map_col c' g d)) d) x = has_col d x"
  by (simp add: when_col_def map_col_def filter_rows_def has_col_def)


lemma has_col_drop_duplicates [simp]: "has_col (drop_duplicates d) x = has_col d x"
  by (simp add: drop_duplicates_def has_col_def)









lemma drop_duplicates_from_distinct:
  "distinct (map key (drop_duplicates_from key seen xs))
   \<and> key ` set (drop_duplicates_from key seen xs) \<inter> set seen = {}"
proof (induction xs arbitrary: seen)
  case Nil
  then show ?case by simp
next
  case (Cons x xs)
  show ?case
  proof (cases "key x \<in> set seen")
    case True
    then show ?thesis using Cons.IH[of seen] by simp
  next
    case False
    then show ?thesis using Cons.IH[of "key x # seen"] by auto
  qed
qed

lemma drop_duplicates_from_keys:
  "key ` set (drop_duplicates_from key seen xs) = key ` set xs - set seen"
proof (induction xs arbitrary: seen)
  case Nil
  then show ?case by simp
next
  case (Cons x xs)
  show ?case
  proof (cases "key x \<in> set seen")
    case True
    then show ?thesis using Cons.IH[of seen] by auto
  next
    case False
    then show ?thesis using Cons.IH[of "key x # seen"] by auto
  qed
qed

lemma drop_duplicates_from_fixed:
  "distinct (map key xs) \<Longrightarrow> key ` set xs \<inter> set seen = {} \<Longrightarrow>
   drop_duplicates_from key seen xs = xs"
  by (induction xs arbitrary: seen) auto

text \<open>Dropping duplicates a second time changes nothing.\<close>

lemma drop_duplicates_idem: "drop_duplicates (drop_duplicates d) = drop_duplicates d"
  using drop_duplicates_from_distinct[of row_key "[]" "rows d"]
    drop_duplicates_from_fixed[of row_key "drop_duplicates_from row_key [] (rows d)" "[]"]
  by (simp add: drop_duplicates_def)

subsection \<open>Cells\<close>












text \<open>
  C5. Cleaning the output of the cleaner again does not always keep the row count. A
  cost of 0.00001 is kept by the first run; the second run turns the float into the text
  \<^verbatim>\<open>1e-05\<close>, \<^verbatim>\<open>_to_currency\<close> removes the letter and leaves \<^verbatim>\<open>1-05\<close>, which is not a
  number, and the row is dropped. (With costs that print without an exponent, as in the
  second example, the second run keeps every row.)
\<close>

theorem clean_data_twice_drops_tiny_cost:
  "length (rows (clean_data no_conversions tiny_cost_example)) = 1
   \<and> map (\<lambda>r. r ''total_cost'') (rows (clean_data no_conversions tiny_cost_example))
       = [Num (Dec False [1] (- 4))]
   \<and> float_str (Dec False [1] (- 4)) = ''1e-05''
   \<and> to_currency (Num (Dec False [1] (- 4))) = NA
   \<and> to_number (Num (Dec False [1] (- 4))) = Num (Dec False [1] (- 4))
   \<and> length (rows (clean_data no_conversions (clean_data no_conversions tiny_cost_example))) = 0
   \<and> length (rows (clean_data no_conversions cleaning_example)) = 2
   \<and> length (rows (clean_data no_conversions (clean_data no_conversions cleaning_example))) = 2"
  by code_simp

section \<open>Properties of the temporal trends\<close>






















section \<open>Properties of the orchestration\<close>

lemma analyze_efficiency_never_returns: "isl (analyze_efficiency df)"
  by (auto simp: analyze_efficiency_def assign_field_def EfficiencyAnalysis_frozen_def
      split: sum.splits prod.splits)












lemma in_frame_keep_rows [simp]: "in_frame (keep_rows P df) c = in_frame df c"
  by (simp add: in_frame_def keep_rows_def)





end
